theory Spec2Isabelle
  imports Complex_Main "HOL-Library.Extended_Nat" "HOL-Library.AList"
begin

section \<open>Arrays, errors and the random source\<close>

text \<open>
  The optimizers of \<^verbatim>\<open>pypop7\<close> work on NumPy arrays of floats. A one-dimensional array is a
  list of reals, a two-dimensional array the list of its rows. Floats are idealised as
  reals: infinities and NaN only appear as the initial \<^verbatim>\<open>best_so_far_y = inf\<close> (modelled
  by \<open>None\<close>) and as the unbounded budgets.

  An index out of range, a shape that cannot be broadcast and an operation on \<^verbatim>\<open>None\<close>
  raise in Python; here they are the values \<open>Inl IndexError\<close>, \<open>Inl ValueError\<close> and
  \<open>Inl TypeError\<close>.
\<close>

type_synonym vec = "real list"

type_synonym matrix = "real list list"

datatype error = IndexError | ValueError | TypeError

definition and_then :: "error + 'a \<Rightarrow> ('a \<Rightarrow> error + 'b) \<Rightarrow> error + 'b" where
  "and_then m f = (case m of Inl e \<Rightarrow> Inl e | Inr v \<Rightarrow> f v)"

text \<open>\<^verbatim>\<open>a[i]\<close> and \<^verbatim>\<open>a[i] = v\<close> for a non-negative index.\<close>

definition getitem :: "'a list \<Rightarrow> nat \<Rightarrow> error + 'a" where
  "getitem a i = (if i < length a then Inr (a ! i) else Inl IndexError)"

definition setitem :: "'a list \<Rightarrow> nat \<Rightarrow> 'a \<Rightarrow> error + 'a list" where
  "setitem a i v = (if i < length a then Inr (a[i := v]) else Inl IndexError)"

text \<open>\<^verbatim>\<open>a[i][j]\<close> and \<^verbatim>\<open>a[i][j] = v\<close> on a two-dimensional array.\<close>

definition getitem2 :: "matrix \<Rightarrow> nat \<Rightarrow> nat \<Rightarrow> error + real" where
  "getitem2 a i j = and_then (getitem a i) (\<lambda>row. getitem row j)"

definition setitem2 :: "matrix \<Rightarrow> nat \<Rightarrow> nat \<Rightarrow> real \<Rightarrow> error + matrix" where
  "setitem2 a i j v =
     and_then (getitem a i) (\<lambda>row.
     and_then (setitem row j v) (\<lambda>row'. Inr (a[i := row'])))"

text \<open>
  An elementwise binary operation on two one-dimensional arrays: equal lengths, or one
  operand of length one that is broadcast over the other.
\<close>

definition broadcast2 :: "('a \<Rightarrow> 'b \<Rightarrow> 'c) \<Rightarrow> 'a list \<Rightarrow> 'b list \<Rightarrow> error + 'c list" where
  "broadcast2 f a b =
     (if length a = length b then Inr (map2 f a b)
      else if length a = 1 then Inr (map (f (hd a)) b)
      else if length b = 1 then Inr (map (\<lambda>u. f u (hd b)) a)
      else Inl ValueError)"

definition np_add :: "vec \<Rightarrow> vec \<Rightarrow> error + vec" where
  "np_add a b = broadcast2 (+) a b"

definition np_sub :: "vec \<Rightarrow> vec \<Rightarrow> error + vec" where
  "np_sub a b = broadcast2 (-) a b"

text \<open>A scalar times an array, and an array divided by a scalar.\<close>

definition smul :: "real \<Rightarrow> vec \<Rightarrow> vec" where
  "smul a v = map (\<lambda>u. a * u) v"

definition sdiv :: "vec \<Rightarrow> real \<Rightarrow> vec" where
  "sdiv v a = map (\<lambda>u. u / a) v"

text \<open>
  \<^verbatim>\<open>a += b\<close> keeps the shape of \<open>a\<close>: \<open>b\<close> has the length of \<open>a\<close> or length one.
\<close>

definition np_iadd :: "vec \<Rightarrow> vec \<Rightarrow> error + vec" where
  "np_iadd a b =
     (if length b = length a then Inr (map2 (+) a b)
      else if length b = 1 then Inr (map (\<lambda>u. u + hd b) a)
      else Inl ValueError)"

text \<open>
  \<^verbatim>\<open>x[k] = v\<close> for a row \<open>k\<close> of a two-dimensional array: the index is resolved first,
  then \<open>v\<close> is copied into the row, broadcast when it has length one.
\<close>

definition setrow :: "matrix \<Rightarrow> nat \<Rightarrow> vec \<Rightarrow> error + matrix" where
  "setrow x k v =
     (if length x \<le> k then Inl IndexError
      else if length v = length (x ! k) then Inr (x[k := v])
      else if length v = 1 then Inr (x[k := replicate (length (x ! k)) (hd v)])
      else Inl ValueError)"

text \<open>\<^verbatim>\<open>a[mask]\<close> for a boolean mask, which must have the length of \<open>a\<close>.\<close>

definition mask_select :: "'a list \<Rightarrow> bool list \<Rightarrow> error + 'a list" where
  "mask_select a flags =
     (if length flags = length a then Inr (map fst (filter snd (zip a flags)))
      else Inl IndexError)"

text \<open>\<^verbatim>\<open>np.dot\<close> of two one-dimensional arrays.\<close>

definition np_dot :: "vec \<Rightarrow> vec \<Rightarrow> error + real" where
  "np_dot a b =
     (if length a = length b then Inr (sum_list (map2 (*) a b)) else Inl ValueError)"

text \<open>
  \<^verbatim>\<open>np.vstack\<close> of two two-dimensional arrays (all rows of the result have one length)
  and \<^verbatim>\<open>np.hstack\<close> of two one-dimensional arrays.
\<close>

definition vstack :: "matrix \<Rightarrow> matrix \<Rightarrow> error + matrix" where
  "vstack a b =
     (if \<forall>r \<in> set (a @ b). \<forall>r' \<in> set (a @ b). length r = length r'
      then Inr (a @ b) else Inl ValueError)"

definition hstack :: "vec \<Rightarrow> vec \<Rightarrow> vec" where
  "hstack a b = a @ b"

text \<open>
  The random source is NumPy's \<^verbatim>\<open>Generator\<close>, an external collaborator. A seeded
  generator is a fixed sequence of variates that the program consumes in order: the
  model keeps, for each distribution the optimizers sample, the variate the generator
  would deliver at each position of its sequence, and the number of variates drawn so
  far. Each scalar draw consumes one position.
\<close>

record rng =
  normal_src :: "nat \<Rightarrow> real"
  cauchy_src :: "nat \<Rightarrow> real"
  uniform_src :: "nat \<Rightarrow> real"
  integer_src :: "nat \<Rightarrow> nat"
  n_drawn :: nat

definition standard_normal :: "rng \<Rightarrow> real \<times> rng" where
  "standard_normal g = (normal_src g (n_drawn g), g\<lparr>n_drawn := n_drawn g + 1\<rparr>)"

definition standard_normal_vec :: "rng \<Rightarrow> nat \<Rightarrow> vec \<times> rng" where
  "standard_normal_vec g n =
     (map (normal_src g) [n_drawn g ..< n_drawn g + n], g\<lparr>n_drawn := n_drawn g + n\<rparr>)"

definition standard_cauchy :: "rng \<Rightarrow> real \<times> rng" where
  "standard_cauchy g = (cauchy_src g (n_drawn g), g\<lparr>n_drawn := n_drawn g + 1\<rparr>)"

text \<open>
  \<^verbatim>\<open>uniform(low, high)\<close> on two arrays: one variate of \<open>[0, 1)\<close> for each component of the
  broadcast shape, scaled to \<open>low + (high - low) * u\<close>.
\<close>

definition uniform :: "rng \<Rightarrow> vec \<Rightarrow> vec \<Rightarrow> error + (vec \<times> rng)" where
  "uniform g low high =
     and_then (broadcast2 Pair low high) (\<lambda>bounds.
       Inr (map (\<lambda>(i, l, h). l + (h - l) * uniform_src g (n_drawn g + i))
              (zip [0..<length bounds] bounds),
            g\<lparr>n_drawn := n_drawn g + length bounds\<rparr>))"

text \<open>\<^verbatim>\<open>choice(a, size)\<close> with \<open>size = k\<close>: \<open>k\<close> integers of \<open>range(a)\<close>, drawn with replacement.\<close>

definition choice :: "rng \<Rightarrow> nat \<Rightarrow> nat \<Rightarrow> error + (nat list \<times> rng)" where
  "choice g a k =
     (if a = 0 \<and> 0 < k then Inl ValueError
      else Inr (map (\<lambda>i. integer_src g (n_drawn g + i) mod a) [0..<k],
                g\<lparr>n_drawn := n_drawn g + k\<rparr>))"

section \<open>The optimizer core\<close>

text \<open>
  Modelled from the spec: the class \<^verbatim>\<open>Optimizer\<close> (\<^verbatim>\<open>pypop7/optimizers/core/optimizer.py\<close>)
  is not among the sources. Its fields are those the sources read (\<^verbatim>\<open>ndim_problem\<close>,
  \<^verbatim>\<open>initial_lower_boundary\<close>, \<^verbatim>\<open>initial_upper_boundary\<close>, \<^verbatim>\<open>n_individuals\<close>, the two
  generators, \<^verbatim>\<open>n_function_evaluations\<close>, \<^verbatim>\<open>best_so_far_y\<close>) and those the spec names in its
  data model (the budgets, the best-so-far point, the recording options and the
  fitness history). Verbose reporting is a side channel outside the functional
  contract and is left out.

  The wall clock is the environment's: \<open>elapsed self i\<close> is the elapsed wall time the
  \<open>i\<close>-th reading of the clock returns, and \<open>n_polls\<close> counts the readings made so far.
  An unbounded \<^verbatim>\<open>max_function_evaluations\<close> is \<open>\<infinity>\<close>, an unbounded \<^verbatim>\<open>max_runtime\<close> is
  \<open>None\<close>, and \<^verbatim>\<open>best_so_far_y = inf\<close> is \<open>None\<close>.
\<close>

record optimizer =
  fitness_function :: "vec \<Rightarrow> real"
  ndim_problem :: nat
  initial_lower_boundary :: vec
  initial_upper_boundary :: vec
  max_function_evaluations :: enat
  max_runtime :: "real option"
  record_fitness :: bool
  record_fitness_frequency :: nat
  n_individuals :: nat
  rng_initialization :: rng
  rng_optimization :: rng
  n_function_evaluations :: nat
  best_so_far_x :: "vec option"
  best_so_far_y :: "real option"
  fitness_history :: "real list"
  elapsed :: "nat \<Rightarrow> real"
  n_polls :: nat

text \<open>
  Modelled from the spec: \<^verbatim>\<open>_check_terminations\<close> is true iff the evaluation counter has
  reached \<^verbatim>\<open>max_function_evaluations\<close> or the elapsed wall time has reached
  \<^verbatim>\<open>max_runtime\<close>. It reads the clock once.
\<close>

definition budget_exhausted :: "'a optimizer_scheme \<Rightarrow> nat \<Rightarrow> real \<Rightarrow> bool" where
  "budget_exhausted self n runtime =
     (max_function_evaluations self \<le> enat n \<or>
      (case max_runtime self of None \<Rightarrow> False | Some limit \<Rightarrow> limit \<le> runtime))"

definition check_terminations :: "'a optimizer_scheme \<Rightarrow> bool \<times> 'a optimizer_scheme" where
  "check_terminations self =
     (budget_exhausted self (n_function_evaluations self) (elapsed self (n_polls self)),
      self\<lparr>n_polls := n_polls self + 1\<rparr>)"

text \<open>
  Modelled from the spec: \<^verbatim>\<open>_evaluate_fitness\<close> is the single point of contact with the
  fitness function. It increments the evaluation counter by exactly one, updates the
  best-so-far value and point together when the new value is smaller, and appends the
  value to the fitness history when recording is on and the counter is a multiple of
  the recording frequency (every value when the frequency is 1). The extra argument
  \<^verbatim>\<open>args\<close> is handed to the fitness function unchanged and is part of
  \<open>fitness_function\<close> here.
\<close>

definition improves :: "real \<Rightarrow> real option \<Rightarrow> bool" where
  "improves y best = (case best of None \<Rightarrow> True | Some b \<Rightarrow> y < b)"

definition evaluate_fitness :: "'a optimizer_scheme \<Rightarrow> vec \<Rightarrow> real \<times> 'a optimizer_scheme" where
  "evaluate_fitness self x =
     (let y = fitness_function self x;
          self1 = self\<lparr>n_function_evaluations := n_function_evaluations self + 1\<rparr>;
          self2 = (if improves y (best_so_far_y self1)
                   then self1\<lparr>best_so_far_x := Some x, best_so_far_y := Some y\<rparr>
                   else self1);
          self3 = (if record_fitness self2 \<and>
                      n_function_evaluations self2 mod record_fitness_frequency self2 = 0
                   then self2\<lparr>fitness_history := fitness_history self2 @ [y]\<rparr>
                   else self2)
      in (y, self3))"

text \<open>
  The results record is a Python dictionary; its values are integers, floats (with
  \<^verbatim>\<open>inf\<close>), arrays, lists of floats and \<^verbatim>\<open>None\<close>.
\<close>

datatype pyval = PInt nat | PFloat real | PInf | PArray vec | PList "real list" | PNone

type_synonym results = "(string \<times> pyval) list"

definition float_or_inf :: "real option \<Rightarrow> pyval" where
  "float_or_inf v = (case v of None \<Rightarrow> PInf | Some r \<Rightarrow> PFloat r)"

definition array_or_none :: "vec option \<Rightarrow> pyval" where
  "array_or_none v = (case v of None \<Rightarrow> PNone | Some a \<Rightarrow> PArray a)"

text \<open>
  Modelled from the spec: \<^verbatim>\<open>Optimizer._collect_results\<close> assembles the final counter, the
  best-so-far point and value and, if recording is enabled, the fitness history it is
  given.
\<close>

definition collect_results :: "'a optimizer_scheme \<Rightarrow> real list \<Rightarrow> results" where
  "collect_results self fitness =
     [(''n_function_evaluations'', PInt (n_function_evaluations self)),
      (''best_so_far_x'', array_or_none (best_so_far_x self)),
      (''best_so_far_y'', float_or_inf (best_so_far_y self))] @
     (if record_fitness self then [(''fitness'', PList fitness)] else [])"

section \<open>Direct search: the base class \<^verbatim>\<open>DS\<close>\<close>

text \<open>
  \<^verbatim>\<open>DS.__init__\<close> reads its options with \<^verbatim>\<open>options.get\<close>; an absent key is \<open>None\<close>. The
  field \<^verbatim>\<open>x\<close> is called \<open>x_option\<close> here, and the leading underscore of a private field
  is dropped.
\<close>

record ds_options =
  opt_x :: "vec option"
  opt_sigma :: "real option"
  opt_sigma_threshold :: "real option"
  opt_stagnation :: "nat option"
  opt_fitness_diff :: "real option"

record ds = optimizer +
  x_option :: "vec option"
  sigma :: "real option"
  n_generations :: nat
  n_restart :: nat
  sigma_threshold :: real
  stagnation :: nat
  fitness_diff :: real
  sigma_bak :: "real option"
  fitness_list :: "real option list"

definition get_default :: "'a option \<Rightarrow> 'a \<Rightarrow> 'a" where
  "get_default v d = (case v of None \<Rightarrow> d | Some u \<Rightarrow> u)"

definition DS_init :: "optimizer \<Rightarrow> ds_options \<Rightarrow> ds" where
  "DS_init base options =
     optimizer.extend base
       (ds.fields
          (opt_x options)
          (opt_sigma options)
          0
          0
          (get_default (opt_sigma_threshold options) (1 / 10 ^ 10))
          (get_default (opt_stagnation options) (max 32 (ndim_problem base)))
          (get_default (opt_fitness_diff options) (1 / 10 ^ 10))
          (opt_sigma options)
          [best_so_far_y base])"

definition DS_initialize_x :: "ds \<Rightarrow> bool \<Rightarrow> error + (vec \<times> ds)" where
  "DS_initialize_x self is_restart =
     (if is_restart \<or> x_option self = None then
        and_then (uniform (rng_initialization self)
                    (initial_lower_boundary self) (initial_upper_boundary self))
          (\<lambda>(x, g). Inr (x, self\<lparr>rng_initialization := g\<rparr>))
      else
        (case x_option self of None \<Rightarrow> Inl TypeError | Some x \<Rightarrow> Inr (x, self)))"

definition DS_collect_results :: "ds \<Rightarrow> real list \<Rightarrow> results" where
  "DS_collect_results self fitness =
     AList.update ''_n_generations'' (PInt (ds.n_generations self))
       (AList.update ''n_restart'' (PInt (ds.n_restart self))
          (AList.update ''sigma'' (case ds.sigma self of None \<Rightarrow> PNone | Some v \<Rightarrow> PFloat v)
             (collect_results self fitness)))"

section \<open>Evolution strategies: the base class \<^verbatim>\<open>ES\<close>\<close>

text \<open>
  Modelled from the spec: the class \<^verbatim>\<open>ES\<close> (\<^verbatim>\<open>pypop7/optimizers/es/es.py\<close>) is not among
  the sources. Its fields are those \<^verbatim>\<open>R1ES\<close> reads (\<^verbatim>\<open>sigma\<close>, \<^verbatim>\<open>n_parents\<close>, \<^verbatim>\<open>_w\<close>,
  \<^verbatim>\<open>_mu_eff\<close>, \<^verbatim>\<open>_n_generations\<close>, \<^verbatim>\<open>is_restart\<close>, \<^verbatim>\<open>saving_fitness\<close>) and those of the spec's
  restart controller, named as in the sibling class \<^verbatim>\<open>DS\<close>. The optional initial point
  \<^verbatim>\<open>mean\<close> is called \<open>mean_option\<close>.
\<close>

record es = optimizer +
  mean_option :: "vec option"
  sigma :: real
  n_generations :: nat
  n_restart :: nat
  sigma_threshold :: real
  stagnation :: nat
  fitness_diff :: real
  sigma_bak :: real
  fitness_list :: "real option list"
  n_parents :: nat
  w :: vec
  mu_eff :: real
  is_restart :: bool
  saving_fitness :: bool

text \<open>
  Modelled from the spec: \<^verbatim>\<open>ES._initialize_mean\<close> gives the initial point, or a uniform
  random draw within the bounds when there is none; on a restart it always draws
  afresh, ignoring any user-supplied initial point.
\<close>

definition ES_initialize_mean :: "'a es_scheme \<Rightarrow> bool \<Rightarrow> error + (vec \<times> 'a es_scheme)" where
  "ES_initialize_mean self is_restart' =
     (if is_restart' \<or> mean_option self = None then
        and_then (uniform (rng_initialization self)
                    (initial_lower_boundary self) (initial_upper_boundary self))
          (\<lambda>(mean, g). Inr (mean, self\<lparr>rng_initialization := g\<rparr>))
      else
        (case mean_option self of None \<Rightarrow> Inl TypeError | Some mean \<Rightarrow> Inr (mean, self)))"

text \<open>
  Modelled from the spec: the restart controller \<^verbatim>\<open>ES.restart_reinitialize\<close>. It is
  consulted once per generation and records the best-so-far value of the generation.
  A restart is triggered when the step-size has fallen below \<^verbatim>\<open>sigma_threshold\<close>, or
  when the best-so-far value has not improved by more than \<^verbatim>\<open>fitness_diff\<close> over the last
  \<^verbatim>\<open>stagnation\<close> generations. A triggered restart increments the restart counter and
  resets the step-size and the stagnation record to their initial values; the
  evaluation and generation counters are never reset.
\<close>

definition not_improved :: "real option \<Rightarrow> real option \<Rightarrow> real \<Rightarrow> bool" where
  "not_improved before now diff =
     (case before of None \<Rightarrow> False
      | Some b \<Rightarrow> (case now of None \<Rightarrow> True | Some n \<Rightarrow> b - n \<le> diff))"

definition ES_restart_reinitialize :: "'a es_scheme \<Rightarrow> bool \<times> 'a es_scheme" where
  "ES_restart_reinitialize self =
     (let history = fitness_list self @ [best_so_far_y self];
          self1 = self\<lparr>fitness_list := history\<rparr>;
          is_restart_1 = sigma self1 < sigma_threshold self1;
          is_restart_2 =
            (stagnation self1 < length history \<and>
             not_improved (history ! (length history - 1 - stagnation self1))
               (last history) (fitness_diff self1))
      in if is_restart_1 \<or> is_restart_2
         then (True, self1\<lparr>sigma := sigma_bak self1,
                           n_restart := n_restart self1 + 1,
                           fitness_list := [best_so_far_y self1]\<rparr>)
         else (False, self1))"

text \<open>
  Modelled from the spec: \<^verbatim>\<open>ES.optimize\<close> starts a run: it installs the fitness function
  when one is given and returns the empty fitness history.
\<close>

definition ES_optimize :: "'a es_scheme \<Rightarrow> (vec \<Rightarrow> real) option \<Rightarrow> real list \<times> 'a es_scheme" where
  "ES_optimize self fitness_function' =
     ([], (case fitness_function' of None \<Rightarrow> self
           | Some f \<Rightarrow> self\<lparr>fitness_function := f\<rparr>))"

text \<open>
  Modelled from the spec: \<^verbatim>\<open>ES._collect_results\<close> adds the step-size, the restart count
  and the generation count to the core's record, as \<^verbatim>\<open>DS._collect_results\<close> does, and the
  mean it is given.
\<close>

definition ES_collect_results :: "'a es_scheme \<Rightarrow> real list \<Rightarrow> vec \<Rightarrow> results" where
  "ES_collect_results self fitness mean =
     AList.update ''_n_generations'' (PInt (n_generations self))
       (AList.update ''n_restart'' (PInt (n_restart self))
          (AList.update ''sigma'' (PFloat (sigma self))
             (AList.update ''mean'' (PArray mean)
                (collect_results self fitness))))"

section \<open>The rank-one evolution strategy \<^verbatim>\<open>R1ES\<close>\<close>

record r1es_options =
  opt_c_cov :: "real option"
  opt_c :: "real option"
  opt_c_s :: "real option"
  opt_q_star :: "real option"
  opt_d_sigma :: "real option"

record r1es = es +
  c_cov :: real
  c :: real
  c_s :: real
  q_star :: real
  d_sigma :: real
  x_1 :: real
  x_2 :: real
  p_1 :: real
  p_2 :: "real option"
  rr :: "int list option"

text \<open>
  \<^verbatim>\<open>R1ES.__init__\<close>, after \<^verbatim>\<open>ES.__init__(self, problem, options)\<close> has produced \<open>base\<close>.
\<close>

definition R1ES_init :: "es \<Rightarrow> r1es_options \<Rightarrow> r1es" where
  "R1ES_init base options =
     (let c_cov' = get_default (opt_c_cov options) (1 / (3 * sqrt (real (ndim_problem base)) + 5));
          c' = get_default (opt_c options) (2 / (real (ndim_problem base) + 7))
      in es.extend base
           (r1es.fields
              c_cov'
              c'
              (get_default (opt_c_s options) (3 / 10))
              (get_default (opt_q_star options) (3 / 10))
              (get_default (opt_d_sigma options) 1)
              (sqrt (1 - c_cov'))
              (sqrt c_cov')
              (1 - c')
              None
              None))"

text \<open>
  \<^verbatim>\<open>R1ES.initialize\<close>. The offspring buffer comes from \<^verbatim>\<open>np.empty\<close>, whose contents are
  arbitrary; it is filled with zeros here, and no statement below depends on a row
  that has not been assigned.
\<close>

definition R1ES_initialize ::
  "r1es \<Rightarrow> bool \<Rightarrow> error + (r1es \<times> matrix \<times> vec \<times> vec \<times> real \<times> vec)" where
  "R1ES_initialize self is_restart' =
     (let self1 = self\<lparr>p_2 := Some (sqrt (c self * (2 - c self) * mu_eff self))\<rparr>;
          self2 = self1\<lparr>rr := Some (map (\<lambda>i. int i + 1) [0..<n_parents self1 * 2])\<rparr>;
          x = replicate (n_individuals self2) (replicate (ndim_problem self2) 0)
      in and_then (ES_initialize_mean self2 is_restart') (\<lambda>(mean, self3).
           let p = replicate (ndim_problem self3) 0;
               s = 0;
               (y0, self4) = evaluate_fitness self3 mean;
               y = replicate (n_individuals self4) y0
           in Inr (self4, x, mean, p, s, y)))"

text \<open>
  \<^verbatim>\<open>R1ES.iterate\<close>: the loop over \<^verbatim>\<open>range(self.n_individuals)\<close>, with the early \<^verbatim>\<open>return\<close>
  when the termination check fires.
\<close>

fun R1ES_iterate_loop ::
  "nat list \<Rightarrow> r1es \<Rightarrow> matrix \<Rightarrow> vec \<Rightarrow> vec \<Rightarrow> vec \<Rightarrow> error + (r1es \<times> matrix \<times> vec)" where
  "R1ES_iterate_loop [] self x mean p y = Inr (self, x, y)"
| "R1ES_iterate_loop (k # ks) self x mean p y =
     (let (terminated, self1) = check_terminations self in
      if terminated then Inr (self1, x, y)
      else
        let (z, g1) = standard_normal_vec (rng_optimization self1) (ndim_problem self1);
            (r, g2) = standard_normal g1;
            self2 = self1\<lparr>rng_optimization := g2\<rparr>
        in and_then (np_add (smul (x_1 self2) z) (smul (x_2 self2 * r) p)) (\<lambda>d.
           and_then (np_add mean (smul (sigma self2) d)) (\<lambda>candidate.
           and_then (setrow x k candidate) (\<lambda>x'.
           and_then (getitem x' k) (\<lambda>xk.
           let (yk, self3) = evaluate_fitness self2 xk in
           and_then (setitem y k yk) (\<lambda>y'.
             R1ES_iterate_loop ks self3 x' mean p y'))))))"

definition R1ES_iterate ::
  "r1es \<Rightarrow> matrix \<Rightarrow> vec \<Rightarrow> vec \<Rightarrow> vec \<Rightarrow> error + (r1es \<times> matrix \<times> vec)" where
  "R1ES_iterate self x mean p y =
     R1ES_iterate_loop [0..<n_individuals self] self x mean p y"

text \<open>
  \<^verbatim>\<open>R1ES._update_distribution\<close>. \<^verbatim>\<open>np.argsort\<close> is NumPy's and is a parameter of the model:
  the order in which it returns the indices of equal values is left to it. \<^verbatim>\<open>y.sort()\<close>
  sorts the caller's array in place, so the sorted \<open>y\<close> is returned with the new mean,
  principal direction and cumulative rank rate; \<^verbatim>\<open>self.sigma\<close> is updated in the object.
\<close>

fun R1ES_mean_w_loop :: "nat list \<Rightarrow> vec \<Rightarrow> matrix \<Rightarrow> nat list \<Rightarrow> vec \<Rightarrow> error + vec" where
  "R1ES_mean_w_loop [] weights x order mean_w = Inr mean_w"
| "R1ES_mean_w_loop (k # ks) weights x order mean_w =
     and_then (getitem weights k) (\<lambda>w_k.
     and_then (getitem order k) (\<lambda>order_k.
     and_then (getitem x order_k) (\<lambda>x_k.
     and_then (np_iadd mean_w (smul w_k x_k)) (\<lambda>mean_w'.
       R1ES_mean_w_loop ks weights x order mean_w'))))"

definition R1ES_update_distribution ::
  "(vec \<Rightarrow> nat list) \<Rightarrow> r1es \<Rightarrow> matrix \<Rightarrow> vec \<Rightarrow> vec \<Rightarrow> real \<Rightarrow> vec \<Rightarrow> vec \<Rightarrow>
     error + (r1es \<times> vec \<times> vec \<times> real \<times> vec)" where
  "R1ES_update_distribution argsort self x mean p s y y_bak =
     (let order = argsort y;
          y' = sort y
      in and_then (R1ES_mean_w_loop [0..<n_parents self] (w self) x order
                     (replicate (ndim_problem self) 0)) (\<lambda>mean_w.
         and_then (np_sub mean_w mean) (\<lambda>step.
         and_then (case p_2 self of None \<Rightarrow> Inl TypeError | Some v \<Rightarrow> Inr v) (\<lambda>p_2'.
         and_then (np_add (smul (p_1 self) p) (sdiv (smul p_2' step) (sigma self))) (\<lambda>p'.
         let r = argsort (hstack (take (n_parents self) y_bak) (take (n_parents self) y')) in
         and_then (case rr self of None \<Rightarrow> Inl TypeError | Some v \<Rightarrow> Inr v) (\<lambda>rr'.
         and_then (mask_select rr' (map (\<lambda>i. i < n_parents self) r)) (\<lambda>rr_bak.
         and_then (mask_select rr' (map (\<lambda>i. n_parents self \<le> i) r)) (\<lambda>rr_now.
         and_then (broadcast2 (-) rr_bak rr_now) (\<lambda>rr_diff.
         and_then (np_dot (w self) (map real_of_int rr_diff)) (\<lambda>dot.
         let q = dot / real (n_parents self);
             s' = (1 - c_s self) * s + c_s self * (q - q_star self);
             self' = self\<lparr>sigma := sigma self * exp (s' / d_sigma self)\<rparr>
         in Inr (self', mean_w, p', s', y')))))))))))"

text \<open>\<^verbatim>\<open>fitness.append(y[0])\<close> under \<^verbatim>\<open>if self.saving_fitness\<close>.\<close>

definition append_first :: "r1es \<Rightarrow> real list \<Rightarrow> vec \<Rightarrow> error + real list" where
  "append_first self fitness y =
     (if saving_fitness self
      then and_then (getitem y 0) (\<lambda>y0. Inr (fitness @ [y0]))
      else Inr fitness)"

text \<open>
  \<^verbatim>\<open>R1ES.restart_reinitialize\<close>. The list \<^verbatim>\<open>fitness\<close> is the caller's and is appended to in
  place, so it is returned with the rest.
\<close>

definition R1ES_restart_reinitialize ::
  "r1es \<Rightarrow> matrix \<Rightarrow> vec \<Rightarrow> vec \<Rightarrow> real \<Rightarrow> vec \<Rightarrow> real list \<Rightarrow>
     error + (r1es \<times> matrix \<times> vec \<times> vec \<times> real \<times> vec \<times> real list)" where
  "R1ES_restart_reinitialize self x mean p s y fitness =
     (let (triggered, self1) = ES_restart_reinitialize self in
      if triggered then
        and_then (R1ES_initialize self1 True) (\<lambda>(self2, x', mean', p', s', y').
        and_then (append_first self2 fitness y') (\<lambda>fitness'.
          Inr (self2\<lparr>d_sigma := d_sigma self2 * 2\<rparr>, x', mean', p', s', y', fitness')))
      else Inr (self1, x, mean, p, s, y, fitness))"

text \<open>
  \<^verbatim>\<open>R1ES.optimize\<close>. \<open>R1ES_generation\<close> is one pass through the body of \<^verbatim>\<open>while True\<close>; the
  flag of its result tells whether the pass ended with \<^verbatim>\<open>break\<close>. The loop need not end
  (both budgets may be unbounded), so it runs on fuel: one unit for each pass, \<open>None\<close>
  when the fuel is used up before the loop breaks.
\<close>

definition R1ES_generation ::
  "(vec \<Rightarrow> nat list) \<Rightarrow> r1es \<Rightarrow> real list \<Rightarrow> matrix \<Rightarrow> vec \<Rightarrow> vec \<Rightarrow> real \<Rightarrow> vec \<Rightarrow>
     error + (bool \<times> r1es \<times> real list \<times> matrix \<times> vec \<times> vec \<times> real \<times> vec)" where
  "R1ES_generation argsort self fitness x mean p s y =
     (let y_bak = y in
      and_then (R1ES_iterate self x mean p y) (\<lambda>(self1, x1, y1).
        let fitness1 = (if saving_fitness self1 then fitness @ y1 else fitness);
            (terminated, self2) = check_terminations self1
        in if terminated then Inr (True, self2, fitness1, x1, mean, p, s, y1)
           else
             and_then (R1ES_update_distribution argsort self2 x1 mean p s y1 y_bak)
               (\<lambda>(self3, mean3, p3, s3, y3).
             let self4 = self3\<lparr>n_generations := n_generations self3 + 1\<rparr> in
             if is_restart self4 then
               and_then (R1ES_restart_reinitialize self4 x1 mean3 p3 s3 y3 fitness1)
                 (\<lambda>(self5, x5, mean5, p5, s5, y5, fitness5).
                   Inr (False, self5, fitness5, x5, mean5, p5, s5, y5))
             else Inr (False, self4, fitness1, x1, mean3, p3, s3, y3))))"

fun R1ES_optimize_loop ::
  "nat \<Rightarrow> (vec \<Rightarrow> nat list) \<Rightarrow> r1es \<Rightarrow> real list \<Rightarrow> matrix \<Rightarrow> vec \<Rightarrow> vec \<Rightarrow> real \<Rightarrow> vec \<Rightarrow>
     (error + (r1es \<times> real list \<times> vec \<times> vec \<times> real)) option" where
  "R1ES_optimize_loop 0 argsort self fitness x mean p s y = None"
| "R1ES_optimize_loop (Suc fuel) argsort self fitness x mean p s y =
     (case R1ES_generation argsort self fitness x mean p s y of
        Inl e \<Rightarrow> Some (Inl e)
      | Inr (break, self', fitness', x', mean', p', s', y') \<Rightarrow>
          if break then Some (Inr (self', fitness', mean', p', s'))
          else R1ES_optimize_loop fuel argsort self' fitness' x' mean' p' s' y')"

definition R1ES_optimize ::
  "nat \<Rightarrow> (vec \<Rightarrow> nat list) \<Rightarrow> r1es \<Rightarrow> (vec \<Rightarrow> real) option \<Rightarrow> (error + results) option" where
  "R1ES_optimize fuel argsort self fitness_function' =
     (let (fitness, self1) = ES_optimize self fitness_function' in
      case R1ES_initialize self1 False of
        Inl e \<Rightarrow> Some (Inl e)
      | Inr (self2, x, mean, p, s, y) \<Rightarrow>
          (case append_first self2 fitness y of
             Inl e \<Rightarrow> Some (Inl e)
           | Inr fitness1 \<Rightarrow>
               (case R1ES_optimize_loop fuel argsort self2 fitness1 x mean p s y of
                  None \<Rightarrow> None
                | Some (Inl e) \<Rightarrow> Some (Inl e)
                | Some (Inr (self3, fitness3, mean3, p3, s3)) \<Rightarrow>
                    Some (Inr (AList.update ''s'' (PFloat s3)
                                 (AList.update ''p'' (PArray p3)
                                    (ES_collect_results self3 fitness3 mean3)))))))"

section \<open>Fast evolutionary programming \<^verbatim>\<open>FEP\<close>\<close>

text \<open>
  Modelled from the spec: the class \<^verbatim>\<open>CEP\<close> (\<^verbatim>\<open>pypop7/optimizers/ep/cep.py\<close>) is not among
  the sources. Of its fields the model keeps those \<^verbatim>\<open>FEP.iterate\<close> reads, with the meaning
  the docstring of \<^verbatim>\<open>FEP\<close> gives them: the number of opponents \<^verbatim>\<open>q\<close> and the two learning
  rates of the individual step-sizes. \<^verbatim>\<open>FEP.__init__\<close> only calls \<^verbatim>\<open>CEP.__init__\<close>, so an
  \<^verbatim>\<open>FEP\<close> object is a \<open>cep\<close>.
\<close>

record cep = optimizer +
  q :: nat
  tau :: real
  tau_apostrophe :: real

text \<open>
  \<^verbatim>\<open>FEP.iterate\<close>. The six arrays are distinct objects: the offspring buffers are written
  in the sampling loop, the parent arrays only in the final selection loop. The inner
  loop over \<^verbatim>\<open>range(self.ndim_problem)\<close> mutates one offspring, component by component.
\<close>

fun FEP_mutate_loop ::
  "nat list \<Rightarrow> cep \<Rightarrow> nat \<Rightarrow> matrix \<Rightarrow> matrix \<Rightarrow> matrix \<Rightarrow> matrix \<Rightarrow>
     error + (cep \<times> matrix \<times> matrix)" where
  "FEP_mutate_loop [] self i x sigmas offspring_x offspring_sigmas =
     Inr (self, offspring_x, offspring_sigmas)"
| "FEP_mutate_loop (j # js) self i x sigmas offspring_x offspring_sigmas =
     (let (n_j, g1) = standard_cauchy (rng_optimization self) in
      and_then (getitem2 x i j) (\<lambda>x_ij.
      and_then (getitem2 sigmas i j) (\<lambda>sigma_ij.
      and_then (setitem2 offspring_x i j (x_ij + sigma_ij * n_j)) (\<lambda>offspring_x'.
      let (n1, g2) = standard_normal g1;
          (n2, g3) = standard_normal g2
      in and_then (setitem2 offspring_sigmas i j
                     (sigma_ij * exp (tau_apostrophe self * n1 + tau self * n2)))
           (\<lambda>offspring_sigmas'.
             FEP_mutate_loop js (self\<lparr>rng_optimization := g3\<rparr>) i x sigmas
               offspring_x' offspring_sigmas')))))"

text \<open>
  The sampling loop over \<^verbatim>\<open>range(self.n_individuals)\<close>. The flag of the result tells whether
  the loop was left by the early \<^verbatim>\<open>return\<close>.
\<close>

fun FEP_sample_loop ::
  "nat list \<Rightarrow> cep \<Rightarrow> matrix \<Rightarrow> matrix \<Rightarrow> matrix \<Rightarrow> matrix \<Rightarrow> vec \<Rightarrow>
     error + (bool \<times> cep \<times> matrix \<times> matrix \<times> vec)" where
  "FEP_sample_loop [] self x sigmas offspring_x offspring_sigmas offspring_y =
     Inr (False, self, offspring_x, offspring_sigmas, offspring_y)"
| "FEP_sample_loop (i # is) self x sigmas offspring_x offspring_sigmas offspring_y =
     (let (terminated, self1) = check_terminations self in
      if terminated then Inr (True, self1, offspring_x, offspring_sigmas, offspring_y)
      else
        and_then (FEP_mutate_loop [0..<ndim_problem self1] self1 i x sigmas
                    offspring_x offspring_sigmas)
          (\<lambda>(self2, offspring_x', offspring_sigmas').
        and_then (getitem offspring_x' i) (\<lambda>candidate.
        let (y_i, self3) = evaluate_fitness self2 candidate in
        and_then (setitem offspring_y i y_i) (\<lambda>offspring_y'.
          FEP_sample_loop is self3 x sigmas offspring_x' offspring_sigmas' offspring_y'))))"

text \<open>
  The tournament: every one of the \<open>2 * n_individuals\<close> candidates meets \<open>q\<close> opponents
  drawn by \<^verbatim>\<open>choice\<close> and scores a win for each opponent that is not better.
\<close>

fun FEP_duel_loop :: "nat list \<Rightarrow> vec \<Rightarrow> nat \<Rightarrow> vec \<Rightarrow> error + vec" where
  "FEP_duel_loop [] new_y i n_win = Inr n_win"
| "FEP_duel_loop (j # js) new_y i n_win =
     and_then (getitem new_y i) (\<lambda>y_i.
     and_then (getitem new_y j) (\<lambda>y_j.
       if y_i \<le> y_j then
         and_then (getitem n_win i) (\<lambda>wins.
         and_then (setitem n_win i (wins + 1)) (\<lambda>n_win'.
           FEP_duel_loop js new_y i n_win'))
       else FEP_duel_loop js new_y i n_win))"

fun FEP_tournament_loop :: "nat list \<Rightarrow> cep \<Rightarrow> vec \<Rightarrow> vec \<Rightarrow> error + (cep \<times> vec)" where
  "FEP_tournament_loop [] self new_y n_win = Inr (self, n_win)"
| "FEP_tournament_loop (i # is) self new_y n_win =
     and_then (choice (rng_optimization self) (2 * n_individuals self) (q self)) (\<lambda>(js, g).
     and_then (FEP_duel_loop js new_y i n_win) (\<lambda>n_win'.
       FEP_tournament_loop is (self\<lparr>rng_optimization := g\<rparr>) new_y n_win'))"

text \<open>The selection loop copies the winners over the parents.\<close>

fun FEP_select_loop ::
  "nat list \<Rightarrow> nat list \<Rightarrow> matrix \<Rightarrow> matrix \<Rightarrow> vec \<Rightarrow> matrix \<Rightarrow> matrix \<Rightarrow> vec \<Rightarrow>
     error + (matrix \<times> matrix \<times> vec)" where
  "FEP_select_loop [] order new_x new_sigmas new_y x sigmas y = Inr (x, sigmas, y)"
| "FEP_select_loop (i # is) order new_x new_sigmas new_y x sigmas y =
     and_then (getitem order i) (\<lambda>order_i.
     and_then (getitem new_x order_i) (\<lambda>row_x.
     and_then (setrow x i row_x) (\<lambda>x'.
     and_then (getitem new_sigmas order_i) (\<lambda>row_sigmas.
     and_then (setrow sigmas i row_sigmas) (\<lambda>sigmas'.
     and_then (getitem new_y order_i) (\<lambda>y_o.
     and_then (setitem y i y_o) (\<lambda>y'.
       FEP_select_loop is order new_x new_sigmas new_y x' sigmas' y')))))))"

definition FEP_iterate ::
  "(vec \<Rightarrow> nat list) \<Rightarrow> cep \<Rightarrow> matrix \<Rightarrow> matrix \<Rightarrow> vec \<Rightarrow> matrix \<Rightarrow> matrix \<Rightarrow> vec \<Rightarrow>
     error + (cep \<times> matrix \<times> matrix \<times> vec \<times> matrix \<times> matrix \<times> vec)" where
  "FEP_iterate argsort self x sigmas y offspring_x offspring_sigmas offspring_y =
     and_then (FEP_sample_loop [0..<n_individuals self] self x sigmas
                 offspring_x offspring_sigmas offspring_y)
       (\<lambda>(returned, self1, offspring_x', offspring_sigmas', offspring_y').
     if returned
     then Inr (self1, x, sigmas, y, offspring_x', offspring_sigmas', offspring_y')
     else
       and_then (vstack offspring_x' x) (\<lambda>new_x.
       and_then (vstack offspring_sigmas' sigmas) (\<lambda>new_sigmas.
       let new_y = hstack offspring_y' y;
           n_win = replicate (2 * n_individuals self1) 0
       in and_then (FEP_tournament_loop [0..<2 * n_individuals self1] self1 new_y n_win)
            (\<lambda>(self2, n_win').
          let order = rev (argsort n_win') in
          and_then (FEP_select_loop [0..<n_individuals self2] order new_x new_sigmas new_y
                      x sigmas y)
            (\<lambda>(x', sigmas', y').
              Inr (self2, x', sigmas', y', offspring_x', offspring_sigmas', offspring_y'))))))"

section \<open>Notions used in the statements\<close>

text \<open>
  \<open>fires self j\<close>: the termination check fires at the \<open>j\<close>-th poll from now, when every
  poll before it was followed by exactly one evaluation. \<open>best_le\<close> orders best-so-far
  values, \<open>None\<close> being \<^verbatim>\<open>inf\<close>. \<open>sampled self self'\<close>: the object \<open>self'\<close> differs from
  \<open>self\<close> at most in the fields a sampling loop writes.
\<close>

definition fires :: "'a optimizer_scheme \<Rightarrow> nat \<Rightarrow> bool" where
  "fires self j =
     budget_exhausted self (n_function_evaluations self + j) (elapsed self (n_polls self + j))"

definition sampled :: "'a optimizer_scheme \<Rightarrow> 'a optimizer_scheme \<Rightarrow> bool" where
  "sampled self self' \<longleftrightarrow>
     (\<exists>n bx by h k g. self' = self\<lparr>n_function_evaluations := n, best_so_far_x := bx,
        best_so_far_y := by, fitness_history := h, n_polls := k, rng_optimization := g\<rparr>)"

definition best_le :: "real option \<Rightarrow> real option \<Rightarrow> bool" where
  "best_le a b = (case b of None \<Rightarrow> True | Some vb \<Rightarrow> (case a of None \<Rightarrow> False | Some va \<Rightarrow> va \<le> vb))"

definition after_sample :: "r1es \<Rightarrow> vec \<Rightarrow> r1es" where
  "after_sample self xk =
     snd (evaluate_fitness
       ((snd (check_terminations self))
          \<lparr>rng_optimization := (rng_optimization self)
             \<lparr>n_drawn := n_drawn (rng_optimization self) + ndim_problem self + 1\<rparr>\<rparr>) xk)"

definition draw_z :: "r1es \<Rightarrow> vec" where
  "draw_z self = map (normal_src (rng_optimization self))
      [n_drawn (rng_optimization self) ..< n_drawn (rng_optimization self) + ndim_problem self]"

definition draw_r :: "r1es \<Rightarrow> real" where
  "draw_r self = normal_src (rng_optimization self) (n_drawn (rng_optimization self) + ndim_problem self)"

definition sphere :: "vec \<Rightarrow> real" where
  "sphere v = sum_list (map (\<lambda>u. u * u) v)"

definition example_rng :: rng where
  "example_rng = \<lparr>normal_src = (\<lambda>i. if even i then 1 else - 1), cauchy_src = (\<lambda>i. 1),
     uniform_src = (\<lambda>i. 1 / 2), integer_src = (\<lambda>i. i), n_drawn = 0\<rparr>"

definition example_optimizer :: optimizer where
  "example_optimizer = \<lparr>fitness_function = sphere, ndim_problem = 1,
     initial_lower_boundary = [- 5], initial_upper_boundary = [5],
     max_function_evaluations = enat 3, max_runtime = None,
     record_fitness = False, record_fitness_frequency = 1000, n_individuals = 2,
     rng_initialization = example_rng, rng_optimization = example_rng,
     n_function_evaluations = 0, best_so_far_x = None, best_so_far_y = None,
     fitness_history = [], elapsed = (\<lambda>i. real i), n_polls = 0\<rparr>"

definition example_es :: es where
  "example_es = optimizer.extend example_optimizer
     (es.fields (Some [3]) 1 0 0 (1 / 10 ^ 10) 32 (1 / 10 ^ 10) 1 [None] 1 [1] 1 True False)"

definition example_r1es :: r1es where
  "example_r1es = R1ES_init example_es
     \<lparr>opt_c_cov = Some 0, opt_c = None, opt_c_s = None, opt_q_star = None, opt_d_sigma = None\<rparr>"

definition example_ds :: ds where
  "example_ds = DS_init example_optimizer
     \<lparr>opt_x = Some [3], opt_sigma = Some 1, opt_sigma_threshold = None,
      opt_stagnation = None, opt_fitness_diff = None\<rparr>"

definition wide :: "nat \<Rightarrow> matrix \<Rightarrow> nat \<Rightarrow> bool" where
  "wide d a i \<longleftrightarrow> i < length a \<and> d \<le> length (a ! i)"

definition example_late :: r1es where
  "example_late = example_r1es\<lparr>n_function_evaluations := 2\<rparr>"

definition example_cep :: cep where
  "example_cep = optimizer.extend example_optimizer (cep.fields 2 1 1)"

definition example_cep_late :: cep where
  "example_cep_late = example_cep\<lparr>n_function_evaluations := 2\<rparr>"



definition rank_statistic :: "(vec \<Rightarrow> nat list) \<Rightarrow> vec \<Rightarrow> vec \<Rightarrow> vec \<Rightarrow> nat \<Rightarrow> real" where
  "rank_statistic argsort weights y_bak y mu =
     (let r = argsort (take mu y_bak @ take mu (sort y));
          rank_bak = map (\<lambda>i. int i + 1) (filter (\<lambda>i. r ! i < mu) [0..<length r]);
          rank_now = map (\<lambda>i. int i + 1) (filter (\<lambda>i. mu \<le> r ! i) [0..<length r])
      in (\<Sum>k<mu. weights ! k * real_of_int (rank_bak ! k - rank_now ! k)) / real mu)"

definition stable_argsort :: "vec \<Rightarrow> nat list" where
  "stable_argsort v = map snd (sort_key fst (zip v [0..<length v]))"

definition example_initialized :: r1es where
  "example_initialized = example_r1es\<lparr>p_2 := Some 1, rr := Some [1, 2]\<rparr>"

definition candidate :: "r1es \<Rightarrow> vec \<Rightarrow> vec \<Rightarrow> nat \<Rightarrow> vec" where
  "candidate self mean p start =
     (let z = map (normal_src (rng_optimization self)) [start..<start + ndim_problem self];
          r = normal_src (rng_optimization self) (start + ndim_problem self)
      in map (\<lambda>i. mean ! i +
                sigma self * (sqrt (1 - c_cov self) * z ! i + sqrt (c_cov self) * r * p ! i))
           [0..<ndim_problem self])"

definition offspring :: "r1es \<Rightarrow> vec \<Rightarrow> vec \<Rightarrow> nat \<Rightarrow> vec" where
  "offspring self mean p k =
     candidate self mean p (n_drawn (rng_optimization self) + k * (ndim_problem self + 1))"

definition sampling_ready :: "r1es \<Rightarrow> matrix \<Rightarrow> vec \<Rightarrow> vec \<Rightarrow> bool" where
  "sampling_ready self x mean p \<longleftrightarrow>
     x_1 self = sqrt (1 - c_cov self) \<and> x_2 self = sqrt (c_cov self) \<and>
     (\<forall>row \<in> set x. length row = ndim_problem self) \<and>
     length mean = ndim_problem self \<and> length p = ndim_problem self"

section \<open>Basic facts\<close>

lemma and_then_Inl [simp]: "and_then (Inl e) f = Inl e"
  by (simp add: and_then_def)

lemma and_then_Inr [simp]: "and_then (Inr v) f = f v"
  by (simp add: and_then_def)

lemma and_then_eq_Inr: "and_then m f = Inr r \<longleftrightarrow> (\<exists>v. m = Inr v \<and> f v = Inr r)"
  by (cases m) simp_all

lemma sampled_refl: "sampled self self"
  unfolding sampled_def
  by (rule exI [of _ "n_function_evaluations self"], rule exI [of _ "best_so_far_x self"],
      rule exI [of _ "best_so_far_y self"], rule exI [of _ "fitness_history self"],
      rule exI [of _ "n_polls self"], rule exI [of _ "rng_optimization self"]) simp

lemma sampled_trans: "sampled s1 s2 \<Longrightarrow> sampled s2 s3 \<Longrightarrow> sampled s1 s3"
  unfolding sampled_def by (elim exE) (simp, blast)

lemma sampled_check: "sampled self (snd (check_terminations self))"
  unfolding sampled_def check_terminations_def
  by (rule exI [of _ "n_function_evaluations self"], rule exI [of _ "best_so_far_x self"],
      rule exI [of _ "best_so_far_y self"], rule exI [of _ "fitness_history self"],
      rule exI [of _ "n_polls self + 1"], rule exI [of _ "rng_optimization self"]) simp

lemma sampled_evaluate: "sampled self (snd (evaluate_fitness self x))"
  unfolding sampled_def
  by (rule exI [of _ "n_function_evaluations self + 1"],
      rule exI [of _ "best_so_far_x (snd (evaluate_fitness self x))"],
      rule exI [of _ "best_so_far_y (snd (evaluate_fitness self x))"],
      rule exI [of _ "fitness_history (snd (evaluate_fitness self x))"],
      rule exI [of _ "n_polls self"], rule exI [of _ "rng_optimization self"])
     (simp add: evaluate_fitness_def Let_def)

lemma sampled_rng: "sampled self (self\<lparr>rng_optimization := g\<rparr>)"
  unfolding sampled_def
  by (rule exI [of _ "n_function_evaluations self"], rule exI [of _ "best_so_far_x self"],
      rule exI [of _ "best_so_far_y self"], rule exI [of _ "fitness_history self"],
      rule exI [of _ "n_polls self"], rule exI [of _ "g"]) simp

lemma sampled_fields:
  assumes "sampled self self'"
  shows "max_function_evaluations self' = max_function_evaluations self"
    and "max_runtime self' = max_runtime self"
    and "elapsed self' = elapsed self"
    and "n_individuals self' = n_individuals self"
    and "ndim_problem self' = ndim_problem self"
    and "fitness_function self' = fitness_function self"
    and "optimizer.more self' = optimizer.more self"
  using assms unfolding sampled_def by auto

lemma sampled_r1es_fields:
  fixes self :: r1es
  assumes "sampled self self'"
  shows "sigma self' = sigma self" and "x_1 self' = x_1 self" and "x_2 self' = x_2 self"
    and "c_cov self' = c_cov self" and "saving_fitness self' = saving_fitness self"
  using assms unfolding sampled_def by auto

lemma best_le_refl [simp]: "best_le a a"
  by (simp add: best_le_def split: option.splits)

lemma best_le_trans: "best_le a1 a2 \<Longrightarrow> best_le a2 a3 \<Longrightarrow> best_le a1 a3"
  by (auto simp: best_le_def split: option.splits)

lemma best_le_evaluate:
  "best_le (best_so_far_y (snd (evaluate_fitness self x))) (best_so_far_y self)"
  by (simp add: evaluate_fitness_def Let_def improves_def best_le_def split: option.splits)

lemma best_le_evaluate_value:
  "best_le (best_so_far_y (snd (evaluate_fitness self x))) (Some (fitness_function self x))"
  by (simp add: evaluate_fitness_def Let_def improves_def best_le_def split: option.splits)

lemma evaluate_fitness_fst: "fst (evaluate_fitness self x) = fitness_function self x"
  by (simp add: evaluate_fitness_def Let_def)

lemma fst_check_fires: "fst (check_terminations self) = fires self 0"
  by (simp add: check_terminations_def fires_def)

lemma iterate_Cons_fire:
  "fires self 0 \<Longrightarrow>
   R1ES_iterate_loop (k # ks) self x mean p y = Inr (snd (check_terminations self), x, y)"
  using fst_check_fires [of self] by (simp add: split_beta)

lemma iterate_Cons_continue:
  assumes "\<not> fires self 0"
  shows "R1ES_iterate_loop (k # ks) self x mean p y =
     and_then (np_add (smul (x_1 self) (draw_z self)) (smul (x_2 self * draw_r self) p)) (\<lambda>d.
     and_then (np_add mean (smul (sigma self) d)) (\<lambda>candidate.
     and_then (setrow x k candidate) (\<lambda>x'.
     and_then (getitem x' k) (\<lambda>xk.
     and_then (setitem y k (fitness_function self xk)) (\<lambda>y'.
       R1ES_iterate_loop ks (after_sample self xk) x' mean p y')))))"
  using assms fst_check_fires [of self]
  by (simp add: split_beta Let_def after_sample_def draw_z_def draw_r_def
      standard_normal_vec_def standard_normal_def check_terminations_def evaluate_fitness_fst)

declare R1ES_iterate_loop.simps(2) [simp del]

lemma after_sample_sampled: "sampled self (after_sample self xk)"
  unfolding after_sample_def
  by (rule sampled_trans [OF sampled_check]) (rule sampled_trans [OF sampled_rng sampled_evaluate])

lemma after_sample_counts:
  "n_function_evaluations (after_sample self xk) = n_function_evaluations self + 1"
  "n_polls (after_sample self xk) = n_polls self + 1"
  "rng_optimization (after_sample self xk) = (rng_optimization self)
             \<lparr>n_drawn := n_drawn (rng_optimization self) + ndim_problem self + 1\<rparr>"
  by (simp_all add: after_sample_def evaluate_fitness_def check_terminations_def Let_def)

lemma after_sample_best:
  "best_le (best_so_far_y (after_sample self xk)) (best_so_far_y self)"
  by (simp add: after_sample_def evaluate_fitness_def check_terminations_def Let_def
      improves_def best_le_def split: option.splits)

lemma fires_after_sample: "fires (after_sample self xk) i = fires self (Suc i)"
  using sampled_fields [OF after_sample_sampled [of self xk]]
  by (simp add: fires_def budget_exhausted_def after_sample_counts)

lemma setrow_Inr:
  assumes "setrow x k v = Inr x'"
  shows "length x' = length x" and "k < length x" and "\<And>i. i \<noteq> k \<Longrightarrow> x' ! i = x ! i"
  using assms by (auto simp: setrow_def split: if_splits)

lemma setitem_Inr:
  assumes "setitem y k v = Inr y'"
  shows "length y' = length y" and "k < length y" and "y' ! k = v"
    and "\<And>i. i \<noteq> k \<Longrightarrow> y' ! i = y ! i"
  using assms by (auto simp: setitem_def split: if_splits)

lemma getitem_Inr: "getitem a i = Inr v \<Longrightarrow> i < length a \<and> v = a ! i"
  by (auto simp: getitem_def split: if_splits)

lemma iterate_Cons_continue_Inr:
  assumes "\<not> fires self 0" and "R1ES_iterate_loop (k # ks) self x mean p y = Inr r"
  obtains x1 y1 where "R1ES_iterate_loop ks (after_sample self (x1 ! k)) x1 mean p y1 = Inr r"
    and "length x1 = length x" and "length y1 = length y" and "k < length x" and "k < length y"
    and "\<And>i. i \<noteq> k \<Longrightarrow> x1 ! i = x ! i" and "\<And>i. i \<noteq> k \<Longrightarrow> y1 ! i = y ! i"
    and "y1 ! k = fitness_function self (x1 ! k)"
proof -
  from assms obtain cand x1 xk y1 where
    "setrow x k cand = Inr x1" "getitem x1 k = Inr xk"
    "setitem y k (fitness_function self xk) = Inr y1"
    "R1ES_iterate_loop ks (after_sample self xk) x1 mean p y1 = Inr r"
    unfolding iterate_Cons_continue [OF assms(1)] and_then_eq_Inr by blast
  with that show thesis
    using setrow_Inr [of x k cand x1] setitem_Inr [of y k "fitness_function self xk" y1]
      getitem_Inr [of x1 k xk] by auto
qed

lemma check_fields:
  "n_function_evaluations (snd (check_terminations self)) = n_function_evaluations self"
  "best_so_far_y (snd (check_terminations self)) = best_so_far_y self"
  "n_polls (snd (check_terminations self)) = n_polls self + 1"
  by (simp_all add: check_terminations_def)

lemma iterate_loop_general:
  assumes "R1ES_iterate_loop ks self x mean p y = Inr (self', x', y')"
  shows "sampled self self' \<and>
         n_function_evaluations self \<le> n_function_evaluations self' \<and>
         n_function_evaluations self' \<le> n_function_evaluations self + length ks \<and>
         best_le (best_so_far_y self') (best_so_far_y self) \<and>
         length x' = length x \<and> length y' = length y"
  using assms
proof (induction ks arbitrary: self x y)
  case Nil
  then show ?case by (simp add: sampled_refl)
next
  case (Cons k ks)
  show ?case
  proof (cases "fires self 0")
    case True
    with Cons.prems show ?thesis
      by (auto simp: iterate_Cons_fire sampled_check check_fields)
  next
    case False
    from iterate_Cons_continue_Inr [OF False Cons.prems] obtain x1 y1 where
      step: "R1ES_iterate_loop ks (after_sample self (x1 ! k)) x1 mean p y1 = Inr (self', x', y')"
      and len: "length x1 = length x" "length y1 = length y"
      by metis
    from Cons.IH [OF step] len show ?thesis
      using after_sample_sampled [of self "x1 ! k"] after_sample_best [of self "x1 ! k"]
      by (auto simp: after_sample_counts intro: sampled_trans best_le_trans)
  qed
qed

lemma iterate_loop_budget:
  assumes "R1ES_iterate_loop ks self x mean p y = Inr (self', x', y')"
    and "max_function_evaluations self = enat M" and "n_function_evaluations self \<le> M"
  shows "n_function_evaluations self' \<le> M"
  using assms
proof (induction ks arbitrary: self x y)
  case Nil
  then show ?case by simp
next
  case (Cons k ks)
  show ?case
  proof (cases "fires self 0")
    case True
    with Cons.prems show ?thesis
      by (auto simp: iterate_Cons_fire check_terminations_def)
  next
    case False
    from iterate_Cons_continue_Inr [OF False Cons.prems(1)] obtain x1 y1 where
      step: "R1ES_iterate_loop ks (after_sample self (x1 ! k)) x1 mean p y1 = Inr (self', x', y')"
      by metis
    from False Cons.prems(2) have "n_function_evaluations self < M"
      by (simp add: fires_def budget_exhausted_def)
    then have "n_function_evaluations (after_sample self (x1 ! k)) \<le> M"
      by (simp add: after_sample_counts)
    moreover have "max_function_evaluations (after_sample self (x1 ! k)) = enat M"
      using sampled_fields(1) [OF after_sample_sampled [of self "x1 ! k"]] Cons.prems(2) by simp
    ultimately show ?thesis using Cons.IH [OF step] by simp
  qed
qed

lemma iterate_loop_exact:
  assumes "R1ES_iterate_loop ks self x mean p y = Inr (self', x', y')"
    and "j \<le> length ks" and "\<forall>i<j. \<not> fires self i" and "j < length ks \<longrightarrow> fires self j"
  shows "n_function_evaluations self' = n_function_evaluations self + j \<and>
         n_polls self' = n_polls self + (if j < length ks then Suc j else j) \<and>
         (\<forall>i. i \<notin> set (take j ks) \<longrightarrow> x' ! i = x ! i \<and> y' ! i = y ! i)"
  using assms
proof (induction ks arbitrary: self x y j)
  case Nil
  then show ?case by simp
next
  case (Cons k ks)
  show ?case
  proof (cases j)
    case 0
    with Cons.prems have "fires self 0" by simp
    with Cons.prems 0 show ?thesis
      by (auto simp: iterate_Cons_fire check_terminations_def)
  next
    case (Suc j')
    with Cons.prems have nf: "\<not> fires self 0" by simp
    from iterate_Cons_continue_Inr [OF nf Cons.prems(1)] obtain x1 y1 where
      step: "R1ES_iterate_loop ks (after_sample self (x1 ! k)) x1 mean p y1 = Inr (self', x', y')"
      and same: "\<And>i. i \<noteq> k \<Longrightarrow> x1 ! i = x ! i" "\<And>i. i \<noteq> k \<Longrightarrow> y1 ! i = y ! i"
      by metis
    have "j' \<le> length ks" "\<forall>i<j'. \<not> fires (after_sample self (x1 ! k)) i"
      "j' < length ks \<longrightarrow> fires (after_sample self (x1 ! k)) j'"
      using Cons.prems Suc by (auto simp: fires_after_sample)
    from Cons.IH [OF step this] same Suc show ?thesis
      by (auto simp: after_sample_counts)
  qed
qed

lemma evaluate_count:
  "n_function_evaluations (snd (evaluate_fitness self x)) = n_function_evaluations self + 1"
  by (simp add: evaluate_fitness_def Let_def)

lemma broadcast2_same:
  "length a = length b \<Longrightarrow> broadcast2 f a b = Inr (map2 f a b)"
  by (simp add: broadcast2_def)

lemma uniform_same_length:
  assumes "length low = length high"
  shows "uniform g low high =
     Inr (map (\<lambda>i. low ! i + (high ! i - low ! i) * uniform_src g (n_drawn g + i))
            [0..<length low],
          g\<lparr>n_drawn := n_drawn g + length low\<rparr>)"
proof -
  have "map (\<lambda>(i, l, h). l + (h - l) * uniform_src g (n_drawn g + i))
          (zip [0..<length (zip low high)] (zip low high)) =
        map (\<lambda>i. low ! i + (high ! i - low ! i) * uniform_src g (n_drawn g + i))
          [0..<length low]"
    using assms by (intro nth_equalityI) simp_all
  then show ?thesis
    using assms by (simp add: uniform_def broadcast2_same)
qed

lemma uniform_within:
  fixes l h u :: real
  assumes "l \<le> h" "0 \<le> u" "u < 1"
  shows "l \<le> l + (h - l) * u" and "l + (h - l) * u \<le> h"
proof -
  from assms show "l \<le> l + (h - l) * u" by simp
  have "(h - l) * u \<le> (h - l) * 1"
    using assms by (intro mult_left_mono) simp_all
  then show "l + (h - l) * u \<le> h" by simp
qed

lemma R1ES_initialize_Inr:
  assumes "R1ES_initialize self restart = Inr (self', x, mean, p, s, y)"
  shows "n_function_evaluations self' = n_function_evaluations self + 1"
    and "y = replicate (n_individuals self) (fitness_function self mean)"
    and "x = replicate (n_individuals self) (replicate (ndim_problem self) 0)"
    and "p = replicate (ndim_problem self) 0" and "s = 0"
    and "best_le (best_so_far_y self') (Some (fitness_function self mean))"
    and "best_le (best_so_far_y self') (best_so_far_y self)"
  using assms
  by (auto simp: R1ES_initialize_def ES_initialize_mean_def Let_def and_then_eq_Inr split_beta
      evaluate_count evaluate_fitness_fst sampled_fields [OF sampled_evaluate]
      intro: best_le_trans [OF best_le_evaluate] best_le_trans [OF best_le_evaluate_value]
      split: if_splits option.splits)

lemmas example_defs = example_r1es_def example_es_def example_optimizer_def example_rng_def
  R1ES_init_def get_default_def optimizer.defs es.defs r1es.defs sphere_def

text \<open>
  Claim C9. Every call of \<^verbatim>\<open>R1ES.initialize\<close>, first or restart, that returns has
  performed exactly one fitness evaluation, that of the mean, and its fitness vector
  \<open>y\<close> is \<open>n_individuals\<close> copies of that one value; the best-so-far value is at most
  that value. The call returns whenever the two bounds have the same length.
\<close>

theorem C9_R1ES_initialize_one_evaluation:
  "(R1ES_initialize self restart = Inr (self', x, mean, p, s, y) \<longrightarrow>
      n_function_evaluations self' = n_function_evaluations self + 1 \<and>
      y = replicate (n_individuals self) (fitness_function self mean) \<and>
      best_le (best_so_far_y self') (Some (fitness_function self mean))) \<and>
   (length (initial_lower_boundary self) = length (initial_upper_boundary self) \<longrightarrow>
      (\<exists>r. R1ES_initialize self restart = Inr r))"
proof (intro conjI impI)
  assume "length (initial_lower_boundary self) = length (initial_upper_boundary self)"
  then show "\<exists>r. R1ES_initialize self restart = Inr r"
    by (simp add: R1ES_initialize_def ES_initialize_mean_def Let_def split_beta
        uniform_same_length split: option.splits)
qed (simp_all add: R1ES_initialize_Inr)

theorem C9_R1ES_initialize_one_evaluation_witness:
  "\<exists>self' x mean p s y. R1ES_initialize example_r1es True = Inr (self', x, mean, p, s, y) \<and>
     length (initial_lower_boundary example_r1es) = length (initial_upper_boundary example_r1es) \<and>
     n_function_evaluations self' = 1 \<and> y = [0, 0] \<and> mean = [0]"
proof -
  have len: "length (initial_lower_boundary example_r1es) =
      length (initial_upper_boundary example_r1es)"
    by (simp add: example_defs)
  with C9_R1ES_initialize_one_evaluation [of example_r1es True] obtain r where "R1ES_initialize example_r1es True = Inr r"
    by blast
  then obtain self' x mean p s y where
    eq: "R1ES_initialize example_r1es True = Inr (self', x, mean, p, s, y)"
    by (metis prod_cases6)
  have m: "mean = [0]"
    using eq by (simp add: R1ES_initialize_def ES_initialize_mean_def Let_def split_beta
        uniform_same_length example_defs)
  from C9_R1ES_initialize_one_evaluation [of example_r1es True self' x mean p s y] eq
  have "n_function_evaluations self' = n_function_evaluations example_r1es + 1"
    "y = replicate (n_individuals example_r1es) (fitness_function example_r1es mean)"
    by simp_all
  with m have "n_function_evaluations self' = 1" "y = [0, 0]"
    by (simp_all add: example_defs numeral_2_eq_2)
  with eq len m show ?thesis by blast
qed

lemma DS_initialize_x_restart:
  "DS_initialize_x self True =
     and_then (uniform (rng_initialization self)
                 (initial_lower_boundary self) (initial_upper_boundary self))
       (\<lambda>(x, g). Inr (x, self\<lparr>rng_initialization := g\<rparr>))"
  by (simp add: DS_initialize_x_def)

text \<open>
  Claim C6. With \<^verbatim>\<open>is_restart=True\<close> the starting point of \<^verbatim>\<open>DS._initialize_x\<close> does not
  depend on the user-supplied point: it is drawn from the initialization generator,
  component \<open>i\<close> being \<open>low ! i + (high ! i - low ! i) * u\<close> for the next unused variate
  \<open>u\<close>, which lies within the bounds when the variates lie in \<open>[0, 1)\<close>; the generator
  advances, so the next restart draws other variates. Without a restart a
  user-supplied point is returned as it is, and a missing one is drawn.
\<close>

theorem C6_DS_initialize_x_restart_resamples:
  "(map_sum id fst (DS_initialize_x (self\<lparr>x_option := user\<rparr>) True) =
      map_sum id fst (DS_initialize_x self True)) \<and>
   (length (initial_lower_boundary self) = length (initial_upper_boundary self) \<longrightarrow>
      (\<exists>x self'. DS_initialize_x self True = Inr (x, self') \<and>
         length x = length (initial_lower_boundary self) \<and>
         (\<forall>i < length x. x ! i = initial_lower_boundary self ! i +
            (initial_upper_boundary self ! i - initial_lower_boundary self ! i) *
              uniform_src (rng_initialization self) (n_drawn (rng_initialization self) + i)) \<and>
         n_drawn (rng_initialization self') = n_drawn (rng_initialization self) + length x \<and>
         ((\<forall>i. 0 \<le> uniform_src (rng_initialization self) i \<and>
                uniform_src (rng_initialization self) i < 1) \<and>
          (\<forall>i < length x. initial_lower_boundary self ! i \<le> initial_upper_boundary self ! i)
          \<longrightarrow> (\<forall>i < length x. initial_lower_boundary self ! i \<le> x ! i \<and>
                 x ! i \<le> initial_upper_boundary self ! i)))) \<and>
   (x_option self = Some v \<longrightarrow> DS_initialize_x self False = Inr (v, self)) \<and>
   (x_option self = None \<longrightarrow> DS_initialize_x self False = DS_initialize_x self True)"
proof (intro conjI impI)
  show "map_sum id fst (DS_initialize_x (self\<lparr>x_option := user\<rparr>) True) =
      map_sum id fst (DS_initialize_x self True)"
    by (cases "uniform (rng_initialization self) (initial_lower_boundary self)
          (initial_upper_boundary self)") (auto simp: DS_initialize_x_restart)
next
  assume len: "length (initial_lower_boundary self) = length (initial_upper_boundary self)"
  show "\<exists>x self'. DS_initialize_x self True = Inr (x, self') \<and>
         length x = length (initial_lower_boundary self) \<and>
         (\<forall>i < length x. x ! i = initial_lower_boundary self ! i +
            (initial_upper_boundary self ! i - initial_lower_boundary self ! i) *
              uniform_src (rng_initialization self) (n_drawn (rng_initialization self) + i)) \<and>
         n_drawn (rng_initialization self') = n_drawn (rng_initialization self) + length x \<and>
         ((\<forall>i. 0 \<le> uniform_src (rng_initialization self) i \<and>
                uniform_src (rng_initialization self) i < 1) \<and>
          (\<forall>i < length x. initial_lower_boundary self ! i \<le> initial_upper_boundary self ! i)
          \<longrightarrow> (\<forall>i < length x. initial_lower_boundary self ! i \<le> x ! i \<and>
                 x ! i \<le> initial_upper_boundary self ! i))"
    by (simp add: DS_initialize_x_restart uniform_same_length [OF len] uniform_within)
qed (simp_all add: DS_initialize_x_def)

theorem C6_DS_initialize_x_restart_resamples_witness:
  "x_option example_ds = Some [3] \<and>
   length (initial_lower_boundary example_ds) = length (initial_upper_boundary example_ds) \<and>
   (\<forall>i. 0 \<le> uniform_src (rng_initialization example_ds) i \<and>
        uniform_src (rng_initialization example_ds) i < 1) \<and>
   initial_lower_boundary example_ds ! 0 \<le> initial_upper_boundary example_ds ! 0 \<and>
   map_sum id fst (DS_initialize_x example_ds True) = Inr [0] \<and>
   DS_initialize_x example_ds False = Inr ([3], example_ds)"
proof -
  have defs: "x_option example_ds = Some [3]"
    "length (initial_lower_boundary example_ds) = length (initial_upper_boundary example_ds)"
    "\<forall>i. 0 \<le> uniform_src (rng_initialization example_ds) i \<and>
        uniform_src (rng_initialization example_ds) i < 1"
    "\<forall>i < 1. initial_lower_boundary example_ds ! i \<le> initial_upper_boundary example_ds ! i"
    "initial_lower_boundary example_ds = [- 5]" "initial_upper_boundary example_ds = [5]"
    "uniform_src (rng_initialization example_ds) = (\<lambda>i. 1 / 2)"
    by (simp_all add: example_ds_def DS_init_def example_defs ds.defs)
  from C6_DS_initialize_x_restart_resamples [where self = example_ds and user = "Some [3]" and v = "[3]"] defs(1,2)
  obtain x self' where r: "DS_initialize_x example_ds True = Inr (x, self')"
    "length x = length (initial_lower_boundary example_ds)"
    "\<forall>i < length x. x ! i = initial_lower_boundary example_ds ! i +
            (initial_upper_boundary example_ds ! i - initial_lower_boundary example_ds ! i) *
              uniform_src (rng_initialization example_ds)
                (n_drawn (rng_initialization example_ds) + i)"
    and f: "DS_initialize_x example_ds False = Inr ([3], example_ds)"
    by blast
  from r(2,3) have "x = [0]"
    by (intro nth_equalityI) (simp_all add: defs)
  with r(1) f defs show ?thesis by simp
qed

lemma np_add_same: "length a = length b \<Longrightarrow> np_add a b = Inr (map2 (+) a b)"
  by (simp add: np_add_def broadcast2_same)

lemma length_smul [simp]: "length (smul a v) = length v"
  by (simp add: smul_def)

lemma length_draw_z [simp]: "length (draw_z self) = ndim_problem self"
  by (simp add: draw_z_def)

lemma setrow_same: "k < length x \<Longrightarrow> length v = length (x ! k) \<Longrightarrow> setrow x k v = Inr (x[k := v])"
  by (simp add: setrow_def)

lemma iterate_loop_returns:
  assumes "\<forall>k \<in> set ks. k < length x \<and> k < length y"
    and "\<forall>row \<in> set x. length row = ndim_problem self"
    and "length mean = ndim_problem self" and "length p = ndim_problem self"
  shows "\<exists>r. R1ES_iterate_loop ks self x mean p y = Inr r"
  using assms
proof (induction ks arbitrary: self x y)
  case Nil
  then show ?case by simp
next
  case (Cons k ks)
  show ?case
  proof (cases "fires self 0")
    case True
    then show ?thesis by (simp add: iterate_Cons_fire)
  next
    case False
    define cand where "cand = map2 (+) mean (smul (sigma self)
      (map2 (+) (smul (x_1 self) (draw_z self)) (smul (x_2 self * draw_r self) p)))"
    have k: "k < length x" "k < length y" using Cons.prems(1) by simp_all
    then have row: "length (x ! k) = ndim_problem self" using Cons.prems(2) by simp
    have lc: "length cand = ndim_problem self"
      using Cons.prems(3,4) by (simp add: cand_def)
    have eq: "R1ES_iterate_loop (k # ks) self x mean p y =
      R1ES_iterate_loop ks (after_sample self cand) (x[k := cand]) mean p
        (y[k := fitness_function self cand])"
      using Cons.prems(3,4) k row lc
      by (simp add: iterate_Cons_continue [OF False] np_add_same cand_def [symmetric]
          setrow_same getitem_def setitem_def)
    have "\<forall>row \<in> set (x[k := cand]). length row = ndim_problem (after_sample self cand)"
      using Cons.prems(2) lc sampled_fields(5) [OF after_sample_sampled [of self cand]]
      by (auto dest!: subsetD [OF set_update_subset_insert])
    moreover have "\<forall>i \<in> set ks. i < length (x[k := cand]) \<and>
        i < length (y[k := fitness_function self cand])"
      using Cons.prems(1) by simp
    ultimately show ?thesis
      unfolding eq using Cons.prems(3,4) sampled_fields(5) [OF after_sample_sampled [of self cand]]
      by (intro Cons.IH) simp_all
  qed
qed

lemma FEP_mutate_loop_Inr:
  assumes "FEP_mutate_loop js self i x sigmas ox os = Inr (self', ox', os')"
  shows "\<exists>g. self' = self\<lparr>rng_optimization := g\<rparr>"
  using assms
proof (induction js arbitrary: self ox os)
  case Nil
  then show ?case by (auto intro: exI [of _ "rng_optimization self"])
next
  case (Cons j js)
  from Cons.prems obtain g ox1 os1 where
    "FEP_mutate_loop js (self\<lparr>rng_optimization := g\<rparr>) i x sigmas ox1 os1 = Inr (self', ox', os')"
    by (auto simp: split_beta Let_def and_then_eq_Inr)
  from Cons.IH [OF this] show ?case by auto
qed

lemma FEP_mutate_loop_sampled:
  assumes "FEP_mutate_loop js self i x sigmas ox os = Inr (self', ox', os')"
  shows "sampled self self'"
    and "n_function_evaluations self' = n_function_evaluations self"
    and "n_polls self' = n_polls self"
    and "best_so_far_y self' = best_so_far_y self"
  using FEP_mutate_loop_Inr [OF assms] by (auto simp: sampled_rng)

lemma FEP_sample_Cons_fire:
  "fires self 0 \<Longrightarrow>
   FEP_sample_loop (i # is) self x sigmas ox os oy =
     Inr (True, snd (check_terminations self), ox, os, oy)"
  using fst_check_fires [of self] by (simp add: split_beta)

lemma FEP_sample_Cons_continue:
  assumes "\<not> fires self 0" and "FEP_sample_loop (i # is) self x sigmas ox os oy = Inr r"
  obtains self3 ox1 os1 oy1 where
    "FEP_sample_loop is self3 x sigmas ox1 os1 oy1 = Inr r"
    and "sampled self self3"
    and "n_function_evaluations self3 = n_function_evaluations self + 1"
    and "n_polls self3 = n_polls self + 1"
    and "best_le (best_so_far_y self3) (best_so_far_y self)"
proof -
  let ?s1 = "snd (check_terminations self)"
  from assms obtain self2 ox1 os1 cand oy1 where
    m: "FEP_mutate_loop [0..<ndim_problem ?s1] ?s1 i x sigmas ox os = Inr (self2, ox1, os1)"
    and rest: "FEP_sample_loop is (snd (evaluate_fitness self2 cand)) x sigmas ox1 os1 oy1 = Inr r"
    using fst_check_fires [of self]
    by (auto simp: split_beta Let_def and_then_eq_Inr)
  note f = FEP_mutate_loop_sampled [OF m]
  show thesis
  proof (rule that [OF rest])
    show "sampled self (snd (evaluate_fitness self2 cand))"
      by (rule sampled_trans [OF sampled_check sampled_trans [OF f(1) sampled_evaluate]])
    show "n_function_evaluations (snd (evaluate_fitness self2 cand)) =
        n_function_evaluations self + 1"
      by (simp add: evaluate_count f check_fields)
    show "n_polls (snd (evaluate_fitness self2 cand)) = n_polls self + 1"
      using sampled_evaluate [of self2 cand] f(3)
      by (simp add: evaluate_fitness_def Let_def check_fields)
    show "best_le (best_so_far_y (snd (evaluate_fitness self2 cand))) (best_so_far_y self)"
      using best_le_evaluate [of self2 cand] by (simp add: f check_fields)
  qed
qed

declare FEP_sample_loop.simps(2) [simp del]

lemma fires_shift:
  assumes "sampled self self3"
    and "n_function_evaluations self3 = n_function_evaluations self + 1"
    and "n_polls self3 = n_polls self + 1"
  shows "fires self3 i = fires self (Suc i)"
  using sampled_fields [OF assms(1)] assms(2,3)
  by (simp add: fires_def budget_exhausted_def)

lemma FEP_sample_loop_general:
  assumes "FEP_sample_loop is self x sigmas ox os oy = Inr (returned, self', ox', os', oy')"
  shows "sampled self self' \<and>
         n_function_evaluations self \<le> n_function_evaluations self' \<and>
         best_le (best_so_far_y self') (best_so_far_y self)"
  using assms
proof (induction "is" arbitrary: self ox os oy)
  case Nil
  then show ?case by (simp add: sampled_refl)
next
  case (Cons i "is")
  show ?case
  proof (cases "fires self 0")
    case True
    with Cons.prems show ?thesis
      by (auto simp: FEP_sample_Cons_fire sampled_check check_fields)
  next
    case False
    from FEP_sample_Cons_continue [OF False Cons.prems] obtain self3 ox1 os1 oy1 where
      step: "FEP_sample_loop is self3 x sigmas ox1 os1 oy1 = Inr (returned, self', ox', os', oy')"
      and s: "sampled self self3" "n_function_evaluations self3 = n_function_evaluations self + 1"
        "best_le (best_so_far_y self3) (best_so_far_y self)"
      by metis
    from Cons.IH [OF step] s show ?thesis
      by (auto intro: sampled_trans best_le_trans)
  qed
qed

lemma FEP_sample_loop_budget:
  assumes "FEP_sample_loop is self x sigmas ox os oy = Inr (returned, self', ox', os', oy')"
    and "max_function_evaluations self = enat M" and "n_function_evaluations self \<le> M"
  shows "n_function_evaluations self' \<le> M"
  using assms
proof (induction "is" arbitrary: self ox os oy)
  case Nil
  then show ?case by simp
next
  case (Cons i "is")
  show ?case
  proof (cases "fires self 0")
    case True
    with Cons.prems show ?thesis
      by (auto simp: FEP_sample_Cons_fire check_fields)
  next
    case False
    from FEP_sample_Cons_continue [OF False Cons.prems(1)] obtain self3 ox1 os1 oy1 where
      step: "FEP_sample_loop is self3 x sigmas ox1 os1 oy1 = Inr (returned, self', ox', os', oy')"
      and s: "sampled self self3" "n_function_evaluations self3 = n_function_evaluations self + 1"
      by metis
    from False Cons.prems(2) have "n_function_evaluations self < M"
      by (simp add: fires_def budget_exhausted_def)
    with s have "n_function_evaluations self3 \<le> M" by simp
    moreover have "max_function_evaluations self3 = enat M"
      using sampled_fields(1) [OF s(1)] Cons.prems(2) by simp
    ultimately show ?thesis using Cons.IH [OF step] by simp
  qed
qed

lemma FEP_sample_loop_exact:
  assumes "FEP_sample_loop is self x sigmas ox os oy = Inr (returned, self', ox', os', oy')"
    and "j \<le> length is" and "\<forall>i<j. \<not> fires self i" and "j < length is \<longrightarrow> fires self j"
  shows "n_function_evaluations self' = n_function_evaluations self + j \<and>
         returned = (j < length is)"
  using assms
proof (induction "is" arbitrary: self ox os oy j)
  case Nil
  then show ?case by simp
next
  case (Cons i "is")
  show ?case
  proof (cases j)
    case 0
    with Cons.prems have "fires self 0" by simp
    with Cons.prems 0 show ?thesis
      by (auto simp: FEP_sample_Cons_fire check_fields)
  next
    case (Suc j')
    with Cons.prems have nf: "\<not> fires self 0" by simp
    from FEP_sample_Cons_continue [OF nf Cons.prems(1)] obtain self3 ox1 os1 oy1 where
      step: "FEP_sample_loop is self3 x sigmas ox1 os1 oy1 = Inr (returned, self', ox', os', oy')"
      and s: "sampled self self3" "n_function_evaluations self3 = n_function_evaluations self + 1"
        "n_polls self3 = n_polls self + 1"
      by metis
    have "j' \<le> length is" "\<forall>i<j'. \<not> fires self3 i" "j' < length is \<longrightarrow> fires self3 j'"
      using Cons.prems Suc by (auto simp: fires_shift [OF s])
    from Cons.IH [OF step this] s Suc show ?thesis by auto
  qed
qed

lemma wide_cong:
  assumes "map length a' = map length a"
  shows "wide d a' i = wide d a i"
proof -
  from assms have l: "length a' = length a" by (metis length_map)
  have "i < length a \<Longrightarrow> length (a' ! i) = length (a ! i)"
    using assms l by (metis nth_map)
  with l show ?thesis by (auto simp: wide_def)
qed

lemma setitem2_wide:
  assumes "i < length a" and "j < length (a ! i)"
  shows "setitem2 a i j v = Inr (a[i := (a ! i)[j := v]])"
    and "map length (a[i := (a ! i)[j := v]]) = map length a"
  using assms
  by (simp_all add: setitem2_def getitem_def setitem_def map_update list_update_same_conv)

lemma getitem2_wide:
  assumes "i < length a" and "j < length (a ! i)"
  shows "getitem2 a i j = Inr (a ! i ! j)"
  using assms by (simp add: getitem2_def getitem_def)

lemma FEP_mutate_loop_returns:
  assumes "i < length x" "i < length sigmas" "i < length ox" "i < length os"
    and "\<forall>j \<in> set js. j < length (x ! i) \<and> j < length (sigmas ! i) \<and>
           j < length (ox ! i) \<and> j < length (os ! i)"
  shows "\<exists>self' ox' os'. FEP_mutate_loop js self i x sigmas ox os = Inr (self', ox', os') \<and>
           map length ox' = map length ox \<and> map length os' = map length os"
  using assms
proof (induction js arbitrary: self ox os)
  case Nil
  then show ?case by simp
next
  case (Cons j js)
  let ?g1 = "snd (standard_cauchy (rng_optimization self))"
  let ?g3 = "snd (standard_normal (snd (standard_normal ?g1)))"
  let ?ox = "ox[i := (ox ! i)[j := x ! i ! j + sigmas ! i ! j * fst (standard_cauchy (rng_optimization self))]]"
  let ?os = "os[i := (os ! i)[j := sigmas ! i ! j *
      exp (tau_apostrophe self * fst (standard_normal ?g1) +
           tau self * fst (standard_normal (snd (standard_normal ?g1))))]]"
  have j: "j < length (x ! i)" "j < length (sigmas ! i)" "j < length (ox ! i)" "j < length (os ! i)"
    using Cons.prems(5) by simp_all
  have eq: "FEP_mutate_loop (j # js) self i x sigmas ox os =
      FEP_mutate_loop js (self\<lparr>rng_optimization := ?g3\<rparr>) i x sigmas ?ox ?os"
    using Cons.prems(1-4) j
    by (simp add: split_beta Let_def getitem2_wide setitem2_wide(1))
  have lo: "map length ?ox = map length ox" "map length ?os = map length os"
    using Cons.prems(3,4) j by (simp_all add: setitem2_wide(2))
  then have "length ?ox = length ox" "length ?os = length os" by simp_all
  moreover have "\<forall>j \<in> set js. j < length (x ! i) \<and> j < length (sigmas ! i) \<and>
           j < length (?ox ! i) \<and> j < length (?os ! i)"
    using Cons.prems(3,4,5) by simp
  ultimately obtain self' ox' os' where
    "FEP_mutate_loop js (self\<lparr>rng_optimization := ?g3\<rparr>) i x sigmas ?ox ?os = Inr (self', ox', os')"
    "map length ox' = map length ?ox" "map length os' = map length ?os"
    using Cons.IH [of ?ox ?os "self\<lparr>rng_optimization := ?g3\<rparr>"] Cons.prems(1-4) by auto
  with eq lo show ?case by simp
qed

lemma FEP_sample_loop_returns:
  assumes "\<forall>i \<in> set is. wide (ndim_problem self) x i \<and> wide (ndim_problem self) sigmas i \<and>
           wide (ndim_problem self) ox i \<and> wide (ndim_problem self) os i \<and> i < length oy"
  shows "\<exists>r. FEP_sample_loop is self x sigmas ox os oy = Inr r"
  using assms
proof (induction "is" arbitrary: self ox os oy)
  case Nil
  show ?case by (rule exI) (rule FEP_sample_loop.simps(1))
next
  case (Cons i "is")
  show ?case
  proof (cases "fires self 0")
    case True
    then show ?thesis by (intro exI) (rule FEP_sample_Cons_fire)
  next
    case False
    let ?s1 = "snd (check_terminations self)"
    have d: "ndim_problem ?s1 = ndim_problem self"
      using sampled_fields(5) [OF sampled_check [of self]] .
    have w: "wide (ndim_problem self) x i" "wide (ndim_problem self) sigmas i"
      "wide (ndim_problem self) ox i" "wide (ndim_problem self) os i" "i < length oy"
      using Cons.prems by simp_all
    then obtain self2 ox1 os1 where
      m: "FEP_mutate_loop [0..<ndim_problem ?s1] ?s1 i x sigmas ox os = Inr (self2, ox1, os1)"
      and l: "map length ox1 = map length ox" "map length os1 = map length os"
      using FEP_mutate_loop_returns [of i x sigmas ox os "[0..<ndim_problem ?s1]" ?s1]
      by (auto simp: wide_def d)
    have "wide (ndim_problem self) ox1 i" using w(3) by (simp add: wide_cong [OF l(1)])
    then have i1: "i < length ox1" by (simp add: wide_def)
    let ?s3 = "snd (evaluate_fitness self2 (ox1 ! i))"
    let ?oy = "oy[i := fitness_function self2 (ox1 ! i)]"
    have eq: "FEP_sample_loop (i # is) self x sigmas ox os oy =
        FEP_sample_loop is ?s3 x sigmas ox1 os1 ?oy"
      using False fst_check_fires [of self] m i1 w(5)
      by (simp add: FEP_sample_loop.simps(2) split_beta Let_def getitem_def setitem_def
          evaluate_fitness_fst)
    have "sampled self ?s3"
      by (rule sampled_trans [OF sampled_check
            sampled_trans [OF FEP_mutate_loop_sampled(1) [OF m] sampled_evaluate]])
    then have d3: "ndim_problem ?s3 = ndim_problem self" by (rule sampled_fields(5))
    have "\<forall>i \<in> set is. wide (ndim_problem ?s3) x i \<and> wide (ndim_problem ?s3) sigmas i \<and>
           wide (ndim_problem ?s3) ox1 i \<and> wide (ndim_problem ?s3) os1 i \<and> i < length ?oy"
      using Cons.prems by (simp add: d3 wide_cong [OF l(1)] wide_cong [OF l(2)])
    from Cons.IH [OF this] show ?thesis unfolding eq .
  qed
qed

lemmas example_late_defs = example_late_def example_cep_late_def example_cep_def cep.defs
  example_defs fires_def budget_exhausted_def

lemma R1ES_iterate_fired:
  assumes "k < n_individuals self" "\<forall>i<k. \<not> fires self i" "fires self k"
    and "R1ES_iterate self x mean p y = Inr (self', x', y')"
  shows "n_function_evaluations self' = n_function_evaluations self + k"
    and "\<forall>i. k \<le> i \<longrightarrow> x' ! i = x ! i \<and> y' ! i = y ! i"
  using iterate_loop_exact [of "[0..<n_individuals self]" self x mean p y self' x' y' k] assms
  by (auto simp: R1ES_iterate_def)

lemma R1ES_iterate_returns:
  assumes "n_individuals self \<le> length x" "n_individuals self \<le> length y"
    and "\<forall>row \<in> set x. length row = ndim_problem self"
    and "length mean = ndim_problem self" and "length p = ndim_problem self"
  shows "\<exists>r. R1ES_iterate self x mean p y = Inr r"
  unfolding R1ES_iterate_def using assms by (intro iterate_loop_returns) auto

lemma FEP_iterate_fired:
  assumes "k < n_individuals self" "\<forall>i<k. \<not> fires self i" "fires self k"
    and "FEP_iterate argsort self x sigmas y ox os oy = Inr (self', x', sigmas', y', ox', os', oy')"
  shows "n_function_evaluations self' = n_function_evaluations self + k"
    and "x' = x" and "sigmas' = sigmas" and "y' = y"
proof -
  from assms(4) obtain res where
    s: "FEP_sample_loop [0..<n_individuals self] self x sigmas ox os oy = Inr res"
    unfolding FEP_iterate_def and_then_eq_Inr by blast
  obtain returned self1 ox1 os1 oy1 where res: "res = (returned, self1, ox1, os1, oy1)"
    by (cases res)
  from FEP_sample_loop_exact [OF s [unfolded res], of k] assms(1-3)
  have n: "n_function_evaluations self1 = n_function_evaluations self + k" and "returned"
    by simp_all
  with s res have "FEP_iterate argsort self x sigmas y ox os oy =
      Inr (self1, x, sigmas, y, ox1, os1, oy1)"
    by (simp add: FEP_iterate_def)
  with assms(4) n show "n_function_evaluations self' = n_function_evaluations self + k"
    and "x' = x" and "sigmas' = sigmas" and "y' = y"
    by simp_all
qed

lemma FEP_iterate_returns:
  assumes "k < n_individuals self" "\<forall>i<k. \<not> fires self i" "fires self k"
    and "\<forall>i < n_individuals self. wide (ndim_problem self) x i \<and>
           wide (ndim_problem self) sigmas i \<and> wide (ndim_problem self) ox i \<and>
           wide (ndim_problem self) os i \<and> i < length oy"
  shows "\<exists>r. FEP_iterate argsort self x sigmas y ox os oy = Inr r"
proof -
  from FEP_sample_loop_returns [of "[0..<n_individuals self]" self x sigmas ox os oy] assms(4)
  obtain returned self1 ox1 os1 oy1 where
    s: "FEP_sample_loop [0..<n_individuals self] self x sigmas ox os oy =
          Inr (returned, self1, ox1, os1, oy1)"
    by (auto simp: atLeast0LessThan)
  from FEP_sample_loop_exact [OF s, of k] assms(1-3) have "returned" by simp
  with s show ?thesis by (simp add: FEP_iterate_def)
qed

text \<open>
  Claim C3. When the termination check first fires at offspring index \<open>k < n_individuals\<close>
  of a generation, that is after \<open>k\<close> evaluations, \<^verbatim>\<open>R1ES.iterate\<close> and \<^verbatim>\<open>FEP.iterate\<close>
  return with the evaluation counter increased by exactly \<open>k\<close>; \<^verbatim>\<open>R1ES.iterate\<close> leaves the
  rows of \<open>x\<close> and the entries of \<open>y\<close> from index \<open>k\<close> on as they were. Both calls return
  (they raise nothing) when the arrays have the shapes the initialization gives them.
\<close>

theorem C3_mid_generation_termination:
  "(k < n_individuals self \<and> (\<forall>i<k. \<not> fires self i) \<and> fires self k \<longrightarrow>
      (R1ES_iterate self x mean p y = Inr (self', x', y') \<longrightarrow>
         n_function_evaluations self' = n_function_evaluations self + k \<and>
         (\<forall>i. k \<le> i \<longrightarrow> x' ! i = x ! i \<and> y' ! i = y ! i)) \<and>
      (n_individuals self \<le> length x \<and> n_individuals self \<le> length y \<and>
       (\<forall>row \<in> set x. length row = ndim_problem self) \<and>
       length mean = ndim_problem self \<and> length p = ndim_problem self \<longrightarrow>
         (\<exists>r. R1ES_iterate self x mean p y = Inr r))) \<and>
   (k < n_individuals fep \<and> (\<forall>i<k. \<not> fires fep i) \<and> fires fep k \<longrightarrow>
      (FEP_iterate argsort fep px sigmas py ox os oy =
          Inr (fep', px', sigmas', py', ox', os', oy') \<longrightarrow>
         n_function_evaluations fep' = n_function_evaluations fep + k) \<and>
      ((\<forall>i < n_individuals fep. wide (ndim_problem fep) px i \<and>
           wide (ndim_problem fep) sigmas i \<and> wide (ndim_problem fep) ox i \<and>
           wide (ndim_problem fep) os i \<and> i < length oy) \<longrightarrow>
         (\<exists>r. FEP_iterate argsort fep px sigmas py ox os oy = Inr r)))"
  using R1ES_iterate_fired [of k self x mean p y self' x' y']
    R1ES_iterate_returns [of self x y mean p]
    FEP_iterate_fired(1) [of k fep argsort px sigmas py ox os oy fep' px' sigmas' py' ox' os' oy']
    FEP_iterate_returns [of k fep px sigmas ox os oy argsort py]
  by blast

lemma example_late_fires: "1 < n_individuals example_late \<and> (\<forall>i<1. \<not> fires example_late i) \<and>
      fires example_late 1"
    by (simp add: example_late_defs)

lemma example_late_shapes: "n_individuals example_late \<le> length [[0], [0::real]] \<and>
       n_individuals example_late \<le> length [7, 7::real] \<and>
       (\<forall>row \<in> set [[0], [0::real]]. length row = ndim_problem example_late) \<and>
       length [0::real] = ndim_problem example_late \<and> length [0::real] = ndim_problem example_late"
    by (simp add: example_late_defs)

lemma example_cep_late_fires: "1 < n_individuals example_cep_late \<and> (\<forall>i<1. \<not> fires example_cep_late i) \<and>
      fires example_cep_late 1"
    by (simp add: example_late_defs)

lemma example_cep_late_shapes: "\<forall>i < n_individuals example_cep_late.
       wide (ndim_problem example_cep_late) [[1], [2]] i \<and>
       wide (ndim_problem example_cep_late) [[1], [1]] i \<and>
       wide (ndim_problem example_cep_late) [[0], [0]] i \<and>
       wide (ndim_problem example_cep_late) [[0], [0]] i \<and> i < length [0, 0::real]"
    by (simp add: example_late_defs wide_def less_Suc_eq numeral_2_eq_2)

lemma example_late_fires_plain:
  "1 < n_individuals example_late \<and> \<not> fires example_late 0 \<and> fires example_late 1"
  using example_late_fires by simp

lemma example_cep_late_fires_plain:
  "1 < n_individuals example_cep_late \<and> \<not> fires example_cep_late 0 \<and>
     fires example_cep_late 1"
  using example_cep_late_fires by simp

theorem C3_mid_generation_termination_witness:
  "(1 < n_individuals example_late \<and> \<not> fires example_late 0 \<and> fires example_late 1) \<and>
   (\<exists>self' x' y'. R1ES_iterate example_late [[0], [0]] [0] [0] [7, 7] = Inr (self', x', y') \<and>
      n_function_evaluations self' = 3 \<and> x' ! 1 = [0] \<and> y' ! 1 = 7) \<and>
   (1 < n_individuals example_cep_late \<and> \<not> fires example_cep_late 0 \<and>
      fires example_cep_late 1) \<and>
   (\<exists>fep' px' sigmas' py' ox' os' oy'.
      FEP_iterate (\<lambda>v. []) example_cep_late [[1], [2]] [[1], [1]] [1, 4] [[0], [0]] [[0], [0]] [0, 0] =
        Inr (fep', px', sigmas', py', ox', os', oy') \<and> n_function_evaluations fep' = 3)"
proof -
  note th = C3_mid_generation_termination [where k = 1 and self = example_late
      and x = "[[0], [0]]" and mean = "[0]" and p = "[0]" and y = "[7, 7]"
      and fep = example_cep_late and argsort = "\<lambda>v. []" and px = "[[1], [2]]"
      and sigmas = "[[1], [1]]" and py = "[1, 4]" and ox = "[[0], [0]]" and os = "[[0], [0]]"
      and oy = "[0, 0]"]
  note a = th [THEN conjunct1, THEN mp, OF example_late_fires]
  note b = th [THEN conjunct2, THEN mp, OF example_cep_late_fires]
  from a [THEN conjunct2, THEN mp, OF example_late_shapes] obtain r where
    "R1ES_iterate example_late [[0], [0]] [0] [0] [7, 7] = Inr r" ..
  then obtain self' x' y' where
    r: "R1ES_iterate example_late [[0], [0]] [0] [0] [7, 7] = Inr (self', x', y')"
    by (cases r) auto
  have n: "n_function_evaluations example_late = 2" "n_function_evaluations example_cep_late = 2"
    by (simp_all add: example_late_defs)
  from a [THEN conjunct1, THEN mp, OF r]
  have c: "n_function_evaluations self' = 3 \<and> x' ! 1 = [0] \<and> y' ! 1 = 7"
    by (simp add: n)
  from b [THEN conjunct2, THEN mp, OF example_cep_late_shapes] obtain rf where
    "FEP_iterate (\<lambda>v. []) example_cep_late [[1], [2]] [[1], [1]] [1, 4] [[0], [0]] [[0], [0]] [0, 0]
       = Inr rf" ..
  then obtain fep' px' sigmas' py' ox' os' oy' where
    rf: "FEP_iterate (\<lambda>v. []) example_cep_late [[1], [2]] [[1], [1]] [1, 4] [[0], [0]] [[0], [0]] [0, 0]
       = Inr (fep', px', sigmas', py', ox', os', oy')"
    by (cases rf) auto
  from b [THEN conjunct1, THEN mp, OF rf]
  have cf: "n_function_evaluations fep' = 3"
    by (simp add: n)
  from r c have e1: "\<exists>self' x' y'.
      R1ES_iterate example_late [[0], [0]] [0] [0] [7, 7] = Inr (self', x', y') \<and>
      n_function_evaluations self' = 3 \<and> x' ! 1 = [0] \<and> y' ! 1 = 7"
    by blast
  from rf cf have e2: "\<exists>fep' px' sigmas' py' ox' os' oy'.
      FEP_iterate (\<lambda>v. []) example_cep_late [[1], [2]] [[1], [1]] [1, 4] [[0], [0]] [[0], [0]] [0, 0] =
        Inr (fep', px', sigmas', py', ox', os', oy') \<and> n_function_evaluations fep' = 3"
    by blast
  show ?thesis
    by (rule conjI [OF example_late_fires_plain
          conjI [OF e1 conjI [OF example_cep_late_fires_plain e2]]])
qed

text \<open>
  Claim C10. When the termination check first fires at offspring index \<open>k < n_individuals\<close>
  during \<^verbatim>\<open>FEP.iterate\<close>, the call returns the parent population \<open>x\<close>, \<open>sigmas\<close> and \<open>y\<close> it was
  given: no offspring is merged, no tournament is held, nothing is selected. The call
  returns when the arrays have \<open>n_individuals\<close> rows of \<open>ndim_problem\<close> components.
\<close>

theorem C10_FEP_early_return_keeps_parents:
  "k < n_individuals fep \<and> (\<forall>i<k. \<not> fires fep i) \<and> fires fep k \<longrightarrow>
     (FEP_iterate argsort fep x sigmas y ox os oy = Inr (fep', x', sigmas', y', ox', os', oy') \<longrightarrow>
        x' = x \<and> sigmas' = sigmas \<and> y' = y \<and>
        n_function_evaluations fep' = n_function_evaluations fep + k) \<and>
     ((\<forall>i < n_individuals fep. wide (ndim_problem fep) x i \<and>
          wide (ndim_problem fep) sigmas i \<and> wide (ndim_problem fep) ox i \<and>
          wide (ndim_problem fep) os i \<and> i < length oy) \<longrightarrow>
        (\<exists>r. FEP_iterate argsort fep x sigmas y ox os oy = Inr r))"
  using FEP_iterate_fired [of k fep argsort x sigmas y ox os oy fep' x' sigmas' y' ox' os' oy']
    FEP_iterate_returns [of k fep x sigmas ox os oy argsort y]
  by blast

theorem C10_FEP_early_return_keeps_parents_witness:
  "(1 < n_individuals example_cep_late \<and> \<not> fires example_cep_late 0 \<and>
      fires example_cep_late 1) \<and>
   (\<exists>fep' ox' os' oy'.
      FEP_iterate (\<lambda>v. []) example_cep_late [[1], [2]] [[1], [1]] [1, 4] [[0], [0]] [[0], [0]] [0, 0] =
        Inr (fep', [[1], [2]], [[1], [1]], [1, 4], ox', os', oy') \<and>
      n_function_evaluations fep' = 3)"
proof -
  note th = C10_FEP_early_return_keeps_parents [where k = 1
      and fep = example_cep_late and argsort = "\<lambda>v. []" and x = "[[1], [2]]"
      and sigmas = "[[1], [1]]" and y = "[1, 4]" and ox = "[[0], [0]]" and os = "[[0], [0]]"
      and oy = "[0, 0]", THEN mp, OF example_cep_late_fires]
  from th [THEN conjunct2, THEN mp, OF example_cep_late_shapes] obtain rf where
    "FEP_iterate (\<lambda>v. []) example_cep_late [[1], [2]] [[1], [1]] [1, 4] [[0], [0]] [[0], [0]] [0, 0]
       = Inr rf" ..
  then obtain fep' x' sigmas' y' ox' os' oy' where
    rf: "FEP_iterate (\<lambda>v. []) example_cep_late [[1], [2]] [[1], [1]] [1, 4] [[0], [0]] [[0], [0]] [0, 0]
       = Inr (fep', x', sigmas', y', ox', os', oy')"
    by (cases rf) auto
  have n: "n_function_evaluations example_cep_late = 2"
    by (simp add: example_late_defs)
  from th [THEN conjunct1, THEN mp, OF rf]
  have cf: "x' = [[1], [2]] \<and> sigmas' = [[1], [1]] \<and> y' = [1, 4] \<and>
      n_function_evaluations fep' = 3"
    by (simp add: n)
  with rf have e: "\<exists>fep' ox' os' oy'.
      FEP_iterate (\<lambda>v. []) example_cep_late [[1], [2]] [[1], [1]] [1, 4] [[0], [0]] [[0], [0]] [0, 0] =
        Inr (fep', [[1], [2]], [[1], [1]], [1, 4], ox', os', oy') \<and>
      n_function_evaluations fep' = 3"
    by blast
  show ?thesis by (rule conjI [OF example_cep_late_fires_plain e])
qed

lemma evaluate_fitness_form:
  "\<exists>bx by h. snd (evaluate_fitness self x) =
     self\<lparr>n_function_evaluations := n_function_evaluations self + 1, best_so_far_x := bx,
       best_so_far_y := by, fitness_history := h\<rparr>"
  by (rule exI [of _ "best_so_far_x (snd (evaluate_fitness self x))"],
      rule exI [of _ "best_so_far_y (snd (evaluate_fitness self x))"],
      rule exI [of _ "fitness_history (snd (evaluate_fitness self x))"])
     (simp add: evaluate_fitness_def Let_def)













lemma R1ES_update_distribution_Inr:
  assumes "R1ES_update_distribution argsort self x mean p s y y_bak =
      Inr (self', mean', p', s', y')"
  obtains rr' rr_bak rr_now rr_diff dot where
    "rr self = Some rr'"
    "mask_select rr' (map (\<lambda>i. i < n_parents self)
        (argsort (hstack (take (n_parents self) y_bak) (take (n_parents self) (sort y))))) =
       Inr rr_bak"
    "mask_select rr' (map (\<lambda>i. n_parents self \<le> i)
        (argsort (hstack (take (n_parents self) y_bak) (take (n_parents self) (sort y))))) =
       Inr rr_now"
    "broadcast2 (-) rr_bak rr_now = Inr rr_diff"
    "np_dot (w self) (map real_of_int rr_diff) = Inr dot"
    "s' = (1 - c_s self) * s + c_s self * (dot / real (n_parents self) - q_star self)"
    "self' = self\<lparr>sigma := sigma self * exp (s' / d_sigma self)\<rparr>"
    "y' = sort y"
  using assms unfolding R1ES_update_distribution_def Let_def and_then_eq_Inr
  by (auto split: option.splits)

lemma mask_select_conv:
  assumes "mask_select a flags = Inr b"
  shows "length flags = length a"
    and "b = map (\<lambda>i. a ! i) (filter (\<lambda>i. flags ! i) [0..<length a])"
proof -
  from assms show l: "length flags = length a"
    by (simp add: mask_select_def split: if_splits)
  have z: "zip a flags = map (\<lambda>i. (a ! i, flags ! i)) [0..<length a]"
    using l by (intro nth_equalityI) simp_all
  from assms l have "b = map fst (filter snd (zip a flags))"
    by (simp add: mask_select_def)
  also have "\<dots> = map (\<lambda>i. a ! i) (filter (\<lambda>i. flags ! i) [0..<length a])"
    unfolding z by (simp add: filter_map comp_def)
  finally show "b = map (\<lambda>i. a ! i) (filter (\<lambda>i. flags ! i) [0..<length a])" .
qed

lemma mask_select_arange:
  assumes "mask_select (map f [0..<n]) (map P r) = Inr b"
  shows "length r = n" and "b = map f (filter (\<lambda>i. P (r ! i)) [0..<length r])"
proof -
  from mask_select_conv(1) [OF assms] show l: "length r = n" by simp
  have "map (\<lambda>i. map f [0..<n] ! i) (filter (\<lambda>i. map P r ! i) [0..<n]) =
      map f (filter (\<lambda>i. P (r ! i)) [0..<n])"
    using l by (intro arg_cong2 [where f = map] ext filter_cong map_cong) auto
  with mask_select_conv(2) [OF assms] l
  show "b = map f (filter (\<lambda>i. P (r ! i)) [0..<length r])" by simp
qed

lemma sum_list_map2_nth:
  fixes u v :: "real list"
  assumes "length u = length v"
  shows "sum_list (map2 (*) u v) = (\<Sum>k<length u. u ! k * v ! k)"
proof -
  have "sum_list (map2 (*) u v) = (\<Sum>k = 0..<length (map2 (*) u v). map2 (*) u v ! k)"
    by (rule sum_list_sum_nth)
  also have "\<dots> = (\<Sum>k = 0..<length u. u ! k * v ! k)"
    using assms by (intro sum.cong) simp_all
  finally show ?thesis by (simp add: atLeast0LessThan)
qed

lemma rank_statistic_dot:
  assumes a: "mask_select (map (\<lambda>i. int i + 1) [0..<mu * 2])
        (map (\<lambda>i. i < mu) (argsort (hstack (take mu y_bak) (take mu (sort y))))) = Inr rr_bak"
    and b: "mask_select (map (\<lambda>i. int i + 1) [0..<mu * 2])
        (map (\<lambda>i. mu \<le> i) (argsort (hstack (take mu y_bak) (take mu (sort y))))) = Inr rr_now"
    and d: "broadcast2 (-) rr_bak rr_now = Inr rr_diff"
    and dot: "np_dot weights (map real_of_int rr_diff) = Inr dot"
    and l: "length weights = mu"
  shows "dot / real mu = rank_statistic argsort weights y_bak y mu"
proof -
  let ?r = "argsort (take mu y_bak @ take mu (sort y))"
  let ?bak = "map (\<lambda>i. int i + 1) (filter (\<lambda>i. ?r ! i < mu) [0..<length ?r])"
  let ?now = "map (\<lambda>i. int i + 1) (filter (\<lambda>i. mu \<le> ?r ! i) [0..<length ?r])"
  note ma = mask_select_arange [OF a [unfolded hstack_def]]
  note mb = mask_select_arange [OF b [unfolded hstack_def]]
  have "(\<lambda>i. mu \<le> ?r ! i) = (\<lambda>i. \<not> ?r ! i < mu)" by auto
  then have "length ?bak + length ?now = length ?r"
    by (simp add: sum_length_filter_compl)
  then have total: "length rr_bak + length rr_now = mu * 2"
    using ma mb by simp
  from dot have ld: "length rr_diff = mu"
    and dv: "dot = sum_list (map2 (*) weights (map real_of_int rr_diff))"
    using l by (simp_all add: np_dot_def split: if_splits)
  have same: "length rr_bak = length rr_now"
  proof (rule ccontr)
    assume ne: "length rr_bak \<noteq> length rr_now"
    with d have "(length rr_bak = 1 \<and> length rr_diff = length rr_now) \<or>
        (length rr_now = 1 \<and> length rr_diff = length rr_bak)"
      by (auto simp: broadcast2_def split: if_splits)
    with ld total ne show False by auto
  qed
  with total have lm: "length rr_bak = mu" "length rr_now = mu" by simp_all
  from d same have dd: "rr_diff = map2 (-) rr_bak rr_now"
    by (simp add: broadcast2_def)
  have "dot = (\<Sum>k<mu. weights ! k * real_of_int (rr_bak ! k - rr_now ! k))"
    unfolding dv using l ld lm
    by (subst sum_list_map2_nth) (simp_all add: dd)
  then show ?thesis
    using ma(2) mb(2) by (simp add: rank_statistic_def Let_def)
qed

lemma R1ES_initialize_rr:
  assumes "R1ES_initialize self restart = Inr (self', x, mean, p, s, y)"
  shows "rr self' = Some (map (\<lambda>i. int i + 1) [0..<n_parents self' * 2])"
proof -
  let ?s2 = "self\<lparr>p_2 := Some (sqrt (c self * (2 - c self) * mu_eff self)),
                 rr := Some (map (\<lambda>i. int i + 1) [0..<n_parents self * 2])\<rparr>"
  from assms obtain s3 where
    m: "ES_initialize_mean ?s2 restart = Inr (mean, s3)"
    and e: "self' = snd (evaluate_fitness s3 mean)"
    by (auto simp: R1ES_initialize_def Let_def and_then_eq_Inr split_beta)
  from m obtain g where s3: "s3 = ?s2\<lparr>rng_initialization := g\<rparr>"
    by (auto simp: ES_initialize_mean_def and_then_eq_Inr split: if_splits option.splits
        intro: that [of "rng_initialization self"])
  from evaluate_fitness_form [of s3 mean] obtain bx "by" h where
    "self' = s3\<lparr>n_function_evaluations := n_function_evaluations s3 + 1, best_so_far_x := bx,
       best_so_far_y := by, fitness_history := h\<rparr>"
    unfolding e by blast
  then show ?thesis by (simp add: s3)
qed

lemma example_update:
  "R1ES_update_distribution stable_argsort example_initialized [[1], [2]] [0] [0] 0 [4, 1] [9, 9] =
     Inr (example_initialized\<lparr>sigma := exp (21 / 100)\<rparr>, [2], [2], 21 / 100, [1, 4])"
  by (simp add: R1ES_update_distribution_def Let_def example_initialized_def example_defs
      stable_argsort_def getitem_def np_iadd_def smul_def sdiv_def np_sub_def np_add_def
      broadcast2_def hstack_def mask_select_def np_dot_def)

text \<open>
  Claim C8. When \<^verbatim>\<open>R1ES._update_distribution\<close> returns, the cumulative rank rate is
  \<open>s' = (1 - c_s) * s + c_s * (q - q_star)\<close> and the step-size is
  \<open>sigma' = sigma * exp (s' / d_sigma)\<close>, with the new \<open>s'\<close>. Here \<open>q\<close> is the rank statistic:
  the previous and the current \<open>n_parents\<close> best fitness values are ranked together, and
  \<open>q\<close> is the weighted sum of the differences between the \<open>k\<close>-th rank of a previous
  value and the \<open>k\<close>-th rank of a current value, divided by \<open>n_parents\<close>. The rank table
  \<^verbatim>\<open>_rr\<close> is the one \<^verbatim>\<open>initialize\<close> sets, and there is one weight for each parent.
\<close>

theorem C8_update_distribution_rank_rate_and_sigma:
  "(R1ES_update_distribution argsort self x mean p s y y_bak = Inr (self', mean', p', s', y') \<and>
    rr self = Some (map (\<lambda>i. int i + 1) [0..<n_parents self * 2]) \<and>
    length (w self) = n_parents self \<longrightarrow>
      s' = (1 - c_s self) * s +
           c_s self * (rank_statistic argsort (w self) y_bak y (n_parents self) - q_star self) \<and>
      sigma self' = sigma self * exp (s' / d_sigma self) \<and>
      d_sigma self' = d_sigma self \<and> c_s self' = c_s self \<and> q_star self' = q_star self) \<and>
   (R1ES_initialize self restart = Inr (self1, x1, mean1, p1, s1, y1) \<longrightarrow>
      rr self1 = Some (map (\<lambda>i. int i + 1) [0..<n_parents self1 * 2]))"
proof (intro conjI impI)
  assume h: "R1ES_update_distribution argsort self x mean p s y y_bak =
      Inr (self', mean', p', s', y') \<and>
    rr self = Some (map (\<lambda>i. int i + 1) [0..<n_parents self * 2]) \<and>
    length (w self) = n_parents self"
  then obtain rr' rr_bak rr_now rr_diff dot where u:
    "rr self = Some rr'"
    "mask_select rr' (map (\<lambda>i. i < n_parents self)
        (argsort (hstack (take (n_parents self) y_bak) (take (n_parents self) (sort y))))) =
       Inr rr_bak"
    "mask_select rr' (map (\<lambda>i. n_parents self \<le> i)
        (argsort (hstack (take (n_parents self) y_bak) (take (n_parents self) (sort y))))) =
       Inr rr_now"
    "broadcast2 (-) rr_bak rr_now = Inr rr_diff"
    "np_dot (w self) (map real_of_int rr_diff) = Inr dot"
    "s' = (1 - c_s self) * s + c_s self * (dot / real (n_parents self) - q_star self)"
    "self' = self\<lparr>sigma := sigma self * exp (s' / d_sigma self)\<rparr>"
    by (elim conjE R1ES_update_distribution_Inr)
  from h u(1) have r: "rr' = map (\<lambda>i. int i + 1) [0..<n_parents self * 2]" by simp
  from h have l: "length (w self) = n_parents self" by simp
  have q: "dot / real (n_parents self) =
      rank_statistic argsort (w self) y_bak y (n_parents self)"
    by (rule rank_statistic_dot [where argsort = argsort and mu = "n_parents self"
          and y_bak = y_bak and y = y and weights = "w self",
          OF u(2) [unfolded r] u(3) [unfolded r] u(4) u(5) l])
  show "s' = (1 - c_s self) * s +
      c_s self * (rank_statistic argsort (w self) y_bak y (n_parents self) - q_star self)"
    using u(6) q by simp
  show "sigma self' = sigma self * exp (s' / d_sigma self)" by (simp add: u(7))
  show "d_sigma self' = d_sigma self" by (simp add: u(7))
  show "c_s self' = c_s self" by (simp add: u(7))
  show "q_star self' = q_star self" by (simp add: u(7))
next
  assume "R1ES_initialize self restart = Inr (self1, x1, mean1, p1, s1, y1)"
  then show "rr self1 = Some (map (\<lambda>i. int i + 1) [0..<n_parents self1 * 2])"
    by (rule R1ES_initialize_rr)
qed

theorem C8_update_distribution_rank_rate_and_sigma_witness:
  "R1ES_update_distribution stable_argsort example_initialized [[1], [2]] [0] [0] 0 [4, 1] [9, 9] =
     Inr (example_initialized\<lparr>sigma := exp (21 / 100)\<rparr>, [2], [2], 21 / 100, [1, 4]) \<and>
   rr example_initialized = Some (map (\<lambda>i. int i + 1) [0..<n_parents example_initialized * 2]) \<and>
   length (w example_initialized) = n_parents example_initialized \<and>
   rank_statistic stable_argsort (w example_initialized) [9, 9] [4, 1]
     (n_parents example_initialized) = 1 \<and>
   (21 / 100 :: real) = (1 - c_s example_initialized) * 0 + c_s example_initialized *
     (rank_statistic stable_argsort (w example_initialized) [9, 9] [4, 1]
        (n_parents example_initialized) - q_star example_initialized)"
proof -
  have h: "rr example_initialized =
      Some (map (\<lambda>i. int i + 1) [0..<n_parents example_initialized * 2])"
    "length (w example_initialized) = n_parents example_initialized"
    by (simp_all add: example_initialized_def example_defs numeral_2_eq_2)
  have v: "c_s example_initialized = 3 / 10" "q_star example_initialized = 3 / 10"
    by (simp_all add: example_initialized_def example_defs)
  from C8_update_distribution_rank_rate_and_sigma [THEN conjunct1, THEN mp,
      OF conjI [OF example_update conjI [OF h]]]
  have e: "(21 / 100 :: real) = (1 - c_s example_initialized) * 0 + c_s example_initialized *
     (rank_statistic stable_argsort (w example_initialized) [9, 9] [4, 1]
        (n_parents example_initialized) - q_star example_initialized)"
    by (rule conjunct1)
  then have "rank_statistic stable_argsort (w example_initialized) [9, 9] [4, 1]
     (n_parents example_initialized) = 1"
    by (simp add: v)
  with example_update h e show ?thesis by (intro conjI)
qed

lemma candidate_raw:
  assumes "sampling_ready self x mean p"
  shows "map2 (+) mean (smul (sigma self)
      (map2 (+) (smul (x_1 self) (draw_z self)) (smul (x_2 self * draw_r self) p))) =
    candidate self mean p (n_drawn (rng_optimization self))"
  using assms
  by (intro nth_equalityI)
     (simp_all add: sampling_ready_def candidate_def Let_def smul_def draw_z_def draw_r_def)

lemma iterate_Cons_continue_shaped:
  assumes nf: "\<not> fires self 0" and sh: "sampling_ready self x mean p"
    and r: "R1ES_iterate_loop (k # ks) self x mean p y = Inr r"
  defines "cand \<equiv> candidate self mean p (n_drawn (rng_optimization self))"
  shows "k < length x" and "k < length y"
    and "R1ES_iterate_loop ks (after_sample self cand) (x[k := cand]) mean p
           (y[k := fitness_function self cand]) = Inr r"
proof -
  have lc: "length cand = ndim_problem self"
    by (simp add: cand_def candidate_def)
  have eq: "R1ES_iterate_loop (k # ks) self x mean p y =
     and_then (setrow x k cand) (\<lambda>x'.
     and_then (getitem x' k) (\<lambda>xk.
     and_then (setitem y k (fitness_function self xk)) (\<lambda>y'.
       R1ES_iterate_loop ks (after_sample self xk) x' mean p y')))"
    using sh unfolding iterate_Cons_continue [OF nf] cand_def candidate_raw [OF sh, symmetric]
    by (simp add: np_add_same sampling_ready_def)
  show kx: "k < length x"
    using r unfolding eq by (cases "k < length x") (simp_all add: setrow_def)
  then have "length (x ! k) = ndim_problem self"
    using sh by (simp add: sampling_ready_def)
  then have eq2: "R1ES_iterate_loop (k # ks) self x mean p y =
     and_then (setitem y k (fitness_function self cand)) (\<lambda>y'.
       R1ES_iterate_loop ks (after_sample self cand) (x[k := cand]) mean p y')"
    unfolding eq using kx lc by (simp add: setrow_same getitem_def)
  show ky: "k < length y"
    using r unfolding eq2 by (cases "k < length y") (simp_all add: setitem_def)
  then show "R1ES_iterate_loop ks (after_sample self cand) (x[k := cand]) mean p
           (y[k := fitness_function self cand]) = Inr r"
    using r unfolding eq2 by (simp add: setitem_def)
qed

lemma candidate_after_sample:
  "candidate (after_sample self xk) mean p start = candidate self mean p start"
  using sampled_r1es_fields [OF after_sample_sampled [of self xk]]
    sampled_fields [OF after_sample_sampled [of self xk]]
  by (simp add: candidate_def after_sample_counts)

lemma sampling_ready_after_sample:
  assumes "sampling_ready self x mean p" and "length v = ndim_problem self"
  shows "sampling_ready (after_sample self xk) (x[k := v]) mean p"
  using assms sampled_r1es_fields [OF after_sample_sampled [of self xk]]
    sampled_fields [OF after_sample_sampled [of self xk]]
  by (auto simp: sampling_ready_def dest!: subsetD [OF set_update_subset_insert])

lemma iterate_loop_offspring:
  assumes "R1ES_iterate_loop ks self x mean p y = Inr (self', x', y')"
    and "sampling_ready self x mean p" and "distinct ks"
    and "j \<le> length ks" and "\<forall>i<j. \<not> fires self i" and "j < length ks \<longrightarrow> fires self j"
  shows "(\<forall>i<j. x' ! (ks ! i) = candidate self mean p
            (n_drawn (rng_optimization self) + i * (ndim_problem self + 1)) \<and>
          y' ! (ks ! i) = fitness_function self (x' ! (ks ! i))) \<and>
         n_drawn (rng_optimization self') =
           n_drawn (rng_optimization self) + j * (ndim_problem self + 1)"
  using assms
proof (induction ks arbitrary: self x y j)
  case Nil
  then show ?case by simp
next
  case (Cons k ks)
  show ?case
  proof (cases j)
    case 0
    with Cons.prems have "fires self 0" by simp
    with Cons.prems(1) 0 show ?thesis
      by (auto simp: iterate_Cons_fire check_terminations_def)
  next
    case (Suc j')
    with Cons.prems have nf: "\<not> fires self 0" by simp
    define cand where "cand = candidate self mean p (n_drawn (rng_optimization self))"
    let ?s3 = "after_sample self cand"
    let ?x1 = "x[k := cand]"
    let ?y1 = "y[k := fitness_function self cand]"
    note st = iterate_Cons_continue_shaped [OF nf Cons.prems(2) Cons.prems(1),
        folded cand_def]
    have lc: "length cand = ndim_problem self"
      by (simp add: cand_def candidate_def)
    have ready: "sampling_ready ?s3 ?x1 mean p"
      by (rule sampling_ready_after_sample [OF Cons.prems(2) lc])
    have j': "j' \<le> length ks" "\<forall>i<j'. \<not> fires ?s3 i" "j' < length ks \<longrightarrow> fires ?s3 j'"
      using Cons.prems Suc by (auto simp: fires_after_sample)
    have d: "distinct ks" "k \<notin> set ks" using Cons.prems(3) by simp_all
    note ih = Cons.IH [OF st(3) ready d(1) j']
    have nd: "ndim_problem ?s3 = ndim_problem self"
      using sampled_fields(5) [OF after_sample_sampled [of self cand]] .
    have ff: "fitness_function ?s3 = fitness_function self"
      using sampled_fields(6) [OF after_sample_sampled [of self cand]] .
    have pos: "n_drawn (rng_optimization ?s3) + i * (ndim_problem ?s3 + 1) =
        n_drawn (rng_optimization self) + Suc i * (ndim_problem self + 1)" for i
      by (simp add: after_sample_counts nd)
    have keep: "x' ! k = ?x1 ! k \<and> y' ! k = ?y1 ! k"
      using iterate_loop_exact [OF st(3) j'] d(2) by (auto dest: in_set_takeD)
    have first: "x' ! k = cand" "y' ! k = fitness_function self cand"
      using keep st(1,2) by simp_all
    have rest: "\<forall>i<j'. x' ! (ks ! i) = candidate self mean p
            (n_drawn (rng_optimization self) + Suc i * (ndim_problem self + 1)) \<and>
          y' ! (ks ! i) = fitness_function self (x' ! (ks ! i))"
      using ih unfolding pos candidate_after_sample ff by blast
    have all: "\<forall>i<j. x' ! ((k # ks) ! i) = candidate self mean p
            (n_drawn (rng_optimization self) + i * (ndim_problem self + 1)) \<and>
          y' ! ((k # ks) ! i) = fitness_function self (x' ! ((k # ks) ! i))"
    proof (intro allI impI)
      fix i assume "i < j"
      show "x' ! ((k # ks) ! i) = candidate self mean p
            (n_drawn (rng_optimization self) + i * (ndim_problem self + 1)) \<and>
          y' ! ((k # ks) ! i) = fitness_function self (x' ! ((k # ks) ! i))"
      proof (cases i)
        case 0
        then show ?thesis using first by (simp add: cand_def)
      next
        case (Suc i')
        with \<open>i < j\<close> \<open>j = Suc j'\<close> have "i' < j'" by simp
        with rest Suc show ?thesis by simp
      qed
    qed
    have "n_drawn (rng_optimization self') =
           n_drawn (rng_optimization self) + j * (ndim_problem self + 1)"
      using ih unfolding pos Suc by blast
    with all show ?thesis by blast
  qed
qed

lemma R1ES_init_ready:
  "x_1 (R1ES_init base options) = sqrt (1 - c_cov (R1ES_init base options))"
  "x_2 (R1ES_init base options) = sqrt (c_cov (R1ES_init base options))"
  by (simp_all add: R1ES_init_def Let_def es.defs r1es.defs)

lemma R1ES_iterate_offspring:
  assumes "sampling_ready self x mean p"
    and "R1ES_iterate self x mean p y = Inr (self', x', y')"
    and "j \<le> n_individuals self" and "\<forall>i<j. \<not> fires self i"
    and "j < n_individuals self \<longrightarrow> fires self j"
  shows "\<forall>k<j. x' ! k = offspring self mean p k \<and>
           y' ! k = fitness_function self (offspring self mean p k)"
    and "n_function_evaluations self' = n_function_evaluations self + j"
    and "n_drawn (rng_optimization self') =
           n_drawn (rng_optimization self) + j * (ndim_problem self + 1)"
proof -
  note l = iterate_loop_offspring [of "[0..<n_individuals self]" self x mean p y self' x' y' j]
  have a: "(\<forall>i<j. x' ! ([0..<n_individuals self] ! i) = candidate self mean p
            (n_drawn (rng_optimization self) + i * (ndim_problem self + 1)) \<and>
          y' ! ([0..<n_individuals self] ! i) =
            fitness_function self (x' ! ([0..<n_individuals self] ! i))) \<and>
         n_drawn (rng_optimization self') =
           n_drawn (rng_optimization self) + j * (ndim_problem self + 1)"
    using assms by (intro l) (simp_all add: R1ES_iterate_def)
  show "\<forall>k<j. x' ! k = offspring self mean p k \<and>
           y' ! k = fitness_function self (offspring self mean p k)"
  proof (intro allI impI)
    fix k assume "k < j"
    with assms(3) have "[0..<n_individuals self] ! k = k" by simp
    with a \<open>k < j\<close> show "x' ! k = offspring self mean p k \<and>
           y' ! k = fitness_function self (offspring self mean p k)"
      by (metis offspring_def)
  qed
  show "n_drawn (rng_optimization self') =
           n_drawn (rng_optimization self) + j * (ndim_problem self + 1)"
    using a by blast
  show "n_function_evaluations self' = n_function_evaluations self + j"
    using iterate_loop_exact [of "[0..<n_individuals self]" self x mean p y self' x' y' j] assms
    by (simp add: R1ES_iterate_def)
qed

text \<open>
  Claim C7. In a generation of \<^verbatim>\<open>R1ES\<close>, started with arrays of the shapes \<^verbatim>\<open>initialize\<close>
  gives them, every offspring \<open>k\<close> that is sampled before the termination check fires is
  \<open>mean + sigma * (sqrt (1 - c_cov) * z + sqrt c_cov * r * p)\<close>, where \<open>z\<close> are the next
  \<open>ndim_problem\<close> unused standard-normal variates of the optimization generator and \<open>r\<close> is
  the one after them; its fitness is the value of the fitness function at that point,
  obtained through \<^verbatim>\<open>_evaluate_fitness\<close>, which counts it. The two factors
  \<open>sqrt (1 - c_cov)\<close> and \<open>sqrt c_cov\<close> are those \<^verbatim>\<open>R1ES.__init__\<close> computes.
\<close>

theorem C7_offspring_sampling:
  "(sampling_ready self x mean p \<and>
    R1ES_iterate self x mean p y = Inr (self', x', y') \<and>
    j \<le> n_individuals self \<and> (\<forall>i<j. \<not> fires self i) \<and>
    (j < n_individuals self \<longrightarrow> fires self j) \<longrightarrow>
      (\<forall>k<j. x' ! k = offspring self mean p k \<and>
              y' ! k = fitness_function self (offspring self mean p k)) \<and>
      n_function_evaluations self' = n_function_evaluations self + j \<and>
      n_drawn (rng_optimization self') =
        n_drawn (rng_optimization self) + j * (ndim_problem self + 1)) \<and>
   x_1 (R1ES_init base options) = sqrt (1 - c_cov (R1ES_init base options)) \<and>
   x_2 (R1ES_init base options) = sqrt (c_cov (R1ES_init base options))"
  using R1ES_iterate_offspring [of self x mean p y self' x' y' j] R1ES_init_ready [of base options]
  by blast

lemma example_ready:
  "sampling_ready example_r1es [[0], [0]] [0] [0]"
  by (simp add: sampling_ready_def example_defs)

lemma example_never_fires:
  "2 \<le> n_individuals example_r1es \<and> (\<forall>i<2. \<not> fires example_r1es i) \<and>
   (2 < n_individuals example_r1es \<longrightarrow> fires example_r1es 2)"
  by (simp add: example_defs fires_def budget_exhausted_def)

lemma example_offspring:
  "offspring example_r1es [0] [0] 0 = [1]" "offspring example_r1es [0] [0] 1 = [1]"
  "offspring example_r1es [0] [0] (Suc 0) = [1]"
  by (simp_all add: offspring_def candidate_def example_defs)

theorem C7_offspring_sampling_witness:
  "sampling_ready example_r1es [[0], [0]] [0] [0] \<and>
   (n_individuals example_r1es = 2 \<and> \<not> fires example_r1es 0 \<and> \<not> fires example_r1es 1) \<and>
   (\<exists>self' x' y'. R1ES_iterate example_r1es [[0], [0]] [0] [0] [7, 7] = Inr (self', x', y') \<and>
      x' ! 0 = [1] \<and> y' ! 0 = 1 \<and> x' ! 1 = [1] \<and> y' ! 1 = 1 \<and>
      n_function_evaluations self' = 2 \<and> n_drawn (rng_optimization self') = 4)"
proof -
  have "\<exists>r. R1ES_iterate example_r1es [[0], [0]] [0] [0] [7, 7] = Inr r"
    by (rule R1ES_iterate_returns) (simp_all add: example_defs)
  then obtain self' x' y' where
    r: "R1ES_iterate example_r1es [[0], [0]] [0] [0] [7, 7] = Inr (self', x', y')"
    by (metis prod_cases3)
  note th = C7_offspring_sampling [where base = example_es, THEN conjunct1, THEN mp,
      OF conjI [OF example_ready conjI [OF r example_never_fires]]]
  have n: "n_function_evaluations example_r1es = 0" "n_drawn (rng_optimization example_r1es) = 0"
    "ndim_problem example_r1es = 1" "fitness_function example_r1es = sphere"
    by (simp_all add: example_defs)
  from th have "x' ! 0 = offspring example_r1es [0] [0] 0 \<and>
      y' ! 0 = fitness_function example_r1es (offspring example_r1es [0] [0] 0)"
    "x' ! 1 = offspring example_r1es [0] [0] 1 \<and>
      y' ! 1 = fitness_function example_r1es (offspring example_r1es [0] [0] 1)"
    "n_function_evaluations self' = n_function_evaluations example_r1es + 2"
    "n_drawn (rng_optimization self') =
        n_drawn (rng_optimization example_r1es) + 2 * (ndim_problem example_r1es + 1)"
    by simp_all
  then have "x' ! 0 = [1] \<and> y' ! 0 = 1 \<and> x' ! 1 = [1] \<and> y' ! 1 = 1 \<and>
      n_function_evaluations self' = 2 \<and> n_drawn (rng_optimization self') = 4"
    by (simp add: example_offspring n sphere_def)
  with r have e: "\<exists>self' x' y'.
      R1ES_iterate example_r1es [[0], [0]] [0] [0] [7, 7] = Inr (self', x', y') \<and>
      x' ! 0 = [1] \<and> y' ! 0 = 1 \<and> x' ! 1 = [1] \<and> y' ! 1 = 1 \<and>
      n_function_evaluations self' = 2 \<and> n_drawn (rng_optimization self') = 4"
    by blast
  have plain: "n_individuals example_r1es = 2 \<and> \<not> fires example_r1es 0 \<and>
      \<not> fires example_r1es 1"
    by (simp add: example_defs fires_def budget_exhausted_def)
  show ?thesis by (rule conjI [OF example_ready conjI [OF plain e]])
qed

end
